theory Spec2Isabelle
  imports Complex_Main "HOL-Library.Multiset"
begin

section \<open>JavaScript values used by the backend\<close>

text \<open>
  Strings are lists of characters with the codes 0 to 255, read as the code units of
  Latin-1; \<open>toLowerCase\<close>, the white space and the classes of the regular expressions
  are those of JavaScript on these code units. \<open>includes\<close> is the substring test of
  \<open>String.prototype.includes\<close>. Numbers are IEEE 754 doubles, modelled below.
\<close>

datatype js_error = TypeError string | ReferenceError string | Error string

fun message :: "js_error \<Rightarrow> string" where
  "message (TypeError m) = m"
| "message (ReferenceError m) = m"
| "message (Error m) = m"

text \<open>\<open>a || b\<close> on a string that may be empty: the empty string is falsy.\<close>

definition or_default :: "string \<Rightarrow> string \<Rightarrow> string" where
  "or_default s d = (if s = [] then d else s)"

text \<open>
  Lower case: the ASCII capitals, and the capitals U+00C0 to U+00DE of Latin-1 (all but
  the multiplication sign U+00D7), which lie 32 below their small letters.
\<close>

definition toLowerCase_char :: "char \<Rightarrow> char" where
  "toLowerCase_char c =
     (case map_of (zip ''ABCDEFGHIJKLMNOPQRSTUVWXYZ'' ''abcdefghijklmnopqrstuvwxyz'') c of
        Some l \<Rightarrow> l
      | None \<Rightarrow>
          if 192 \<le> (of_char c :: nat) \<and> (of_char c :: nat) \<le> 222 \<and> (of_char c :: nat) \<noteq> 215
          then char_of ((of_char c :: nat) + 32)
          else c)"

definition toLowerCase :: "string \<Rightarrow> string" where
  "toLowerCase s = map toLowerCase_char s"

fun startsWith :: "string \<Rightarrow> string \<Rightarrow> bool" where
  "startsWith s [] = True"
| "startsWith [] (p # ps) = False"
| "startsWith (c # cs) (p # ps) = (c = p \<and> startsWith cs ps)"

fun str_includes :: "string \<Rightarrow> string \<Rightarrow> bool" where
  "str_includes [] sub = (sub = [])"
| "str_includes (c # cs) sub = (startsWith (c # cs) sub \<or> str_includes cs sub)"

text \<open>\<open>Array.prototype.join\<close> on strings (a missing element is joined as the empty string).\<close>

fun join :: "string \<Rightarrow> string list \<Rightarrow> string" where
  "join sep [] = []"
| "join sep [x] = x"
| "join sep (x # y # ys) = x @ sep @ join sep (y # ys)"

subsection \<open>Numbers\<close>

text \<open>
  A JavaScript number is an IEEE 754 double: a finite value, an infinity (\<open>True\<close> for the
  positive one) or NaN. A finite value is kept as the rational it denotes. The sign of a
  zero is not kept; the code compares with \<open>===\<close> and adds, multiplies and divides by
  positive counts, where the two zeros behave alike.
\<close>

datatype double = Num rat | Infinite bool | NaN

text \<open>The number of binary digits of a positive integer.\<close>

function bits :: "int \<Rightarrow> int" where
  "bits n = (if n \<le> 0 then 0 else 1 + bits (n div 2))"
  by pat_completeness auto
termination
  by (relation "measure nat") auto

declare bits.simps [simp del]

text \<open>
  The binary exponent of a positive \<open>a\<close>: the integer \<open>e\<close> for which \<open>a\<close> lies between the
  \<open>e\<close>-th power of two (included) and the next one (excluded).
\<close>

definition log2floor :: "rat \<Rightarrow> int" where
  "log2floor a =
     (if 1 \<le> a then bits \<lfloor>a\<rfloor> - 1
      else - bits (\<lceil>1 / a\<rceil> - 1))"

definition roundHalfEven :: "rat \<Rightarrow> int" where
  "roundHalfEven q =
     (let n = \<lfloor>q\<rfloor>; r = q - of_int n
      in if r < 1 / 2 then n
         else if 1 / 2 < r then n + 1
         else if even n then n else n + 1)"

text \<open>
  Rounding an exact result to the nearest double, ties to the even significand. A double
  has 53 binary digits; below the exponent -1022 the spacing stays at the power -1074 of
  two; a result that rounds to the power 1024 of two or beyond is an infinity. This is
  also what \<open>JSON.parse\<close> does to a numeral.
\<close>

definition double_of :: "rat \<Rightarrow> double" where
  "double_of x =
     (if x = 0 then Num 0
      else
        let a = \<bar>x\<bar>; l = log2floor a
        in if 1024 \<le> l then Infinite (0 < x)
           else
             let e = max (l - 52) (- 1074);
                 m = roundHalfEven (a / 2 powi e)
             in if l = 1023 \<and> m = 2 ^ 53 then Infinite (0 < x)
                else Num ((if 0 < x then 1 else - 1) * of_int m * 2 powi e))"

fun fadd :: "double \<Rightarrow> double \<Rightarrow> double" where
  "fadd (Num a) (Num b) = double_of (a + b)"
| "fadd (Num a) (Infinite s) = Infinite s"
| "fadd (Infinite s) (Num b) = Infinite s"
| "fadd (Infinite s) (Infinite t) = (if s = t then Infinite s else NaN)"
| "fadd NaN y = NaN"
| "fadd x NaN = NaN"

fun fmul :: "double \<Rightarrow> double \<Rightarrow> double" where
  "fmul (Num a) (Num b) = double_of (a * b)"
| "fmul (Num a) (Infinite s) = (if a = 0 then NaN else Infinite (s = (0 < a)))"
| "fmul (Infinite s) (Num b) = (if b = 0 then NaN else Infinite (s = (0 < b)))"
| "fmul (Infinite s) (Infinite t) = Infinite (s = t)"
| "fmul NaN y = NaN"
| "fmul x NaN = NaN"

fun fdiv :: "double \<Rightarrow> double \<Rightarrow> double" where
  "fdiv (Num a) (Num b) =
     (if b = 0 then (if a = 0 then NaN else Infinite (0 < a)) else double_of (a / b))"
| "fdiv (Num a) (Infinite s) = Num 0"
| "fdiv (Infinite s) (Num b) = Infinite (s = (0 \<le> b))"
| "fdiv (Infinite s) (Infinite t) = NaN"
| "fdiv NaN y = NaN"
| "fdiv x NaN = NaN"

text \<open>\<open>Math.round\<close>: the nearest integer, ties towards plus infinity.\<close>

fun Math_round :: "double \<Rightarrow> double" where
  "Math_round (Num x) = Num (of_int \<lfloor>x + 1 / 2\<rfloor>)"
| "Math_round (Infinite s) = Infinite s"
| "Math_round NaN = NaN"

fun Math_max :: "double \<Rightarrow> double \<Rightarrow> double" where
  "Math_max (Num a) (Num b) = Num (max a b)"
| "Math_max (Num a) (Infinite s) = (if s then Infinite s else Num a)"
| "Math_max (Infinite s) (Num b) = (if s then Infinite s else Num b)"
| "Math_max (Infinite s) (Infinite t) = Infinite (s \<or> t)"
| "Math_max NaN y = NaN"
| "Math_max x NaN = NaN"

text \<open>A count (the length of an array) as a number.\<close>

definition number :: "nat \<Rightarrow> double" where
  "number n = Num (of_nat n)"

text \<open>
  A property of a parsed JSON object that the code expects to be an array: it may be
  missing (or another falsy value), present but not an array, or an array.
\<close>

datatype 'a jsfield = Absent | NotArray | Arr "'a list"

text \<open>The idiom \<open>if (x && Array.isArray(x)) x.forEach(...)\<close>: the elements visited.\<close>

fun elements :: "'a jsfield \<Rightarrow> 'a list" where
  "elements (Arr xs) = xs"
| "elements Absent = []"
| "elements NotArray = []"

text \<open>\<open>a || b\<close> on such a property.\<close>

fun or_else :: "'a jsfield \<Rightarrow> 'a jsfield \<Rightarrow> 'a jsfield" where
  "or_else Absent b = b"
| "or_else NotArray b = NotArray"
| "or_else (Arr xs) b = Arr xs"

text \<open>
  Adding to a \<open>Set\<close> (which iterates in insertion order), and the equivalent
  \<open>if (!arr.includes(x)) arr.push(x)\<close>.
\<close>

definition add_unique :: "'a list \<Rightarrow> 'a \<Rightarrow> 'a list" where
  "add_unique acc x = (if x \<in> set acc then acc else acc @ [x])"

text \<open>
  \<open>Array.prototype.sort\<close> with a comparator. The language requires the sort to be stable;
  with a consistent comparator the result is the one stably sorted permutation, computed
  here by insertion from the right.
\<close>

fun insert_sorted :: "('a \<Rightarrow> 'a \<Rightarrow> int) \<Rightarrow> 'a \<Rightarrow> 'a list \<Rightarrow> 'a list" where
  "insert_sorted cmp x [] = [x]"
| "insert_sorted cmp x (y # ys) =
     (if cmp x y \<le> 0 then x # y # ys else y # insert_sorted cmp x ys)"

definition array_sort :: "('a \<Rightarrow> 'a \<Rightarrow> int) \<Rightarrow> 'a list \<Rightarrow> 'a list" where
  "array_sort cmp xs = foldr (insert_sorted cmp) xs []"

text \<open>
  \<open>Promise.all\<close> over promises that are settled when they are created: the first
  rejection in index order, or all the values.
\<close>

fun Promise_all :: "(js_error + 'a) list \<Rightarrow> js_error + 'a list" where
  "Promise_all [] = Inr []"
| "Promise_all (Inl e # ps) = Inl e"
| "Promise_all (Inr v # ps) = (case Promise_all ps of Inl e \<Rightarrow> Inl e | Inr vs \<Rightarrow> Inr (v # vs))"

section \<open>logicAnalyzer.js\<close>

subsection \<open>Data\<close>

datatype criticality = High | Medium | Low

record testCase =
  description :: string
  criticality :: criticality
  impact :: string

text \<open>
  The JSON object the model is asked for. Every property may be missing or ill-typed,
  since the text is parsed without validation. The answer is taken to be an object with
  no properties beyond those of the requested format, so that the spread
  \<open>...analysisResult\<close> does not overwrite \<open>success\<close> or \<open>fileName\<close>. A criticality is one
  of the three values the prompt asks for. \<open>coveragePercentage\<close> holds the numeral of the
  JSON text when the property is a number; \<open>JSON.parse\<close> rounds it to a double.
\<close>

record analysisPayload =
  summary :: "string option"
  expectedFunctionalities :: "string jsfield"
  actualFunctionalities :: "string jsfield"
  missingCoreFunctionalities :: "string jsfield"
  missingNegativeTestCases :: "testCase jsfield"
  missingTestCases :: "testCase jsfield"
  coveragePercentage :: "rat option"

definition noPayload :: analysisPayload where
  "noPayload = \<lparr>summary = None, expectedFunctionalities = Absent,
     actualFunctionalities = Absent, missingCoreFunctionalities = Absent,
     missingNegativeTestCases = Absent, missingTestCases = Absent,
     coveragePercentage = None\<rparr>"

text \<open>
  What \<open>analyzeLogicFile\<close> returns: \<open>{success, fileName, skipped, reason}\<close> for an
  excluded file, \<open>{success, fileName, ...analysisResult}\<close> after a successful call and
  \<open>{success, fileName, error}\<close> after a failed one. A missing \<open>skipped\<close> is falsy.
\<close>

record analysisResult =
  success :: bool
  fileName :: string
  skipped :: bool
  reason :: "string option"
  error :: "string option"
  payload :: analysisPayload

record fileRecord =
  path :: string
  content :: "string option"
  classification :: string

text \<open>
  The external call of \<open>analyzeLogicFile\<close>: the chat completion for a file content and
  name followed by \<open>JSON.parse\<close> of the answer. It either throws or yields the object.
\<close>

type_synonym analysisModel = "string \<Rightarrow> string \<Rightarrow> js_error + analysisPayload"

record comparisonEntry =
  functionality :: string
  implemented :: bool
  implementationStatus :: string
  implementedIn :: "string list"

record functionalityData =
  comparisonTable :: "comparisonEntry list"
  missingCore :: "string list"
  overallCoveragePercentage :: double

record criticalTestCase =
  tc_description :: string
  tc_criticality :: criticality
  tc_impact :: string
  tc_fileName :: string

text \<open>The object \<open>fileCount\<close>; its property \<open>skipped\<close> is the field \<open>skippedCount\<close>.\<close>

record fileCount =
  total :: nat
  analyzed :: nat
  skippedCount :: nat

record aggregatedResults =
  fileCount :: fileCount
  fileAnalyses :: "analysisResult list"
  aggregatedSummary :: string
  functionalityComparison :: "comparisonEntry list"
  aggregatedMissingCore :: "string list"
  aggregatedCoverage :: double
  criticalTestCases :: "criticalTestCase list"

text \<open>
  The result of \<open>analyzeLogicFiles\<close>: \<open>{success: false, error}\<close> or
  \<open>{success: true, ...}\<close>.
\<close>

datatype aggregate =
    Failed (failure: string)
  | Aggregated (results: aggregatedResults)

subsection \<open>analyzeLogicFile\<close>

definition skippedResult :: "string \<Rightarrow> analysisResult" where
  "skippedResult name =
     \<lparr>success = False, fileName = name, skipped = True,
      reason = Some ''Error handling file excluded from core functionality analysis'',
      error = None, payload = noPayload\<rparr>"

text \<open>
  The function returns its result together with the calls it made to the model.
  The exclusion test reads the name first; \<open>||\<close> short-circuits, so the content is only
  touched when the name does not match, and a content that is not a string makes
  \<open>toLowerCase\<close> throw outside the \<open>try\<close> block: the promise is rejected.
\<close>

definition nameExcluded :: "string \<Rightarrow> bool" where
  "nameExcluded name =
     (str_includes (toLowerCase name) ''error'' \<or> str_includes (toLowerCase name) ''exception'')"

definition contentExcluded :: "string \<Rightarrow> bool" where
  "contentExcluded text =
     (str_includes (toLowerCase text) ''error page''
      \<or> str_includes (toLowerCase text) ''exception page'')"

definition analyzeLogicFile ::
  "analysisModel \<Rightarrow> string option \<Rightarrow> string
     \<Rightarrow> (js_error + analysisResult) \<times> (string \<times> string) list" where
  "analyzeLogicFile ai fileContent name =
     (if nameExcluded name then (Inr (skippedResult name), [])
      else case fileContent of
        None \<Rightarrow>
          (Inl (TypeError ''Cannot read properties of undefined (reading 'toLowerCase')''), [])
      | Some text \<Rightarrow>
          if contentExcluded text then (Inr (skippedResult name), [])
          else (case ai text name of
              Inr analysisResult \<Rightarrow>
                (Inr \<lparr>success = True, fileName = name, skipped = False, reason = None,
                      error = None, payload = analysisResult\<rparr>, [(text, name)])
            | Inl e \<Rightarrow>
                (Inr \<lparr>success = False, fileName = name, skipped = False, reason = None,
                      error = Some (or_default (message e) ''Failed to analyze logic file''),
                      payload = noPayload\<rparr>, [(text, name)])))"

subsection \<open>Aggregation\<close>

definition generateAggregatedSummary :: "analysisResult list \<Rightarrow> string" where
  "generateAggregatedSummary analysisResults =
     (let successfulAnalyses = filter success analysisResults in
      if successfulAnalyses = [] then ''No successful file analyses to generate summary''
      else
        let summaries = map (\<lambda>result. summary (payload result)) successfulAnalyses
        in join ''\<newline>\<newline>'' (map (\<lambda>s. case s of None \<Rightarrow> [] | Some t \<Rightarrow> t) summaries))"

definition implementingFiles :: "analysisResult list \<Rightarrow> string \<Rightarrow> analysisResult list" where
  "implementingFiles successfulAnalyses f =
     filter (\<lambda>r. f \<in> set (elements (actualFunctionalities (payload r)))) successfulAnalyses"

definition comparisonRow :: "analysisResult list \<Rightarrow> string \<Rightarrow> comparisonEntry" where
  "comparisonRow successfulAnalyses f =
     (let files = implementingFiles successfulAnalyses f in
      \<lparr>functionality = f,
       implemented = (length files > 0),
       implementationStatus = (if length files > 0 then ''Complete'' else ''Missing''),
       implementedIn = map fileName files\<rparr>)"

definition filesCoveragePercentages :: "analysisResult list \<Rightarrow> double list" where
  "filesCoveragePercentages successfulAnalyses =
     map (\<lambda>r. double_of (the (coveragePercentage (payload r))))
       (filter (\<lambda>r. coveragePercentage (payload r) \<noteq> None) successfulAnalyses)"

definition generateFunctionalityComparison :: "analysisResult list \<Rightarrow> functionalityData" where
  "generateFunctionalityComparison analysisResults =
     (let successfulAnalyses = filter success analysisResults in
      if successfulAnalyses = []
      then \<lparr>comparisonTable = [], missingCore = [], overallCoveragePercentage = Num 0\<rparr>
      else
        let allExpectedFunctionalities =
              foldl add_unique []
                (concat (map (\<lambda>r. elements (expectedFunctionalities (payload r)))
                   successfulAnalyses));
            missing =
              foldl add_unique []
                (concat (map (\<lambda>r. elements (missingCoreFunctionalities (payload r)))
                   successfulAnalyses));
            table = map (comparisonRow successfulAnalyses) allExpectedFunctionalities;
            percentages = filesCoveragePercentages successfulAnalyses;
            computed =
              (if length percentages > 0
               then Math_round
                      (fdiv (foldl fadd (Num 0) percentages) (number (length percentages)))
               else
                 let implementedCount = length (filter implemented table);
                     totalCount = length table
                 in if totalCount > 0
                    then Math_round
                           (fmul (fdiv (number implementedCount) (number totalCount)) (Num 100))
                    else Num 0);
            overall =
              (if computed = Num 0 \<and> list_ex implemented table
               then Math_max (Num 1) computed
               else computed)
        in \<lparr>comparisonTable = table, missingCore = missing,
            overallCoveragePercentage = overall\<rparr>)"

definition criticalityOrder :: "criticality \<Rightarrow> int" where
  "criticalityOrder c = (case c of High \<Rightarrow> 0 | Medium \<Rightarrow> 1 | Low \<Rightarrow> 2)"

definition byCriticality :: "criticalTestCase \<Rightarrow> criticalTestCase \<Rightarrow> int" where
  "byCriticality a b = criticalityOrder (tc_criticality a) - criticalityOrder (tc_criticality b)"

definition tagged :: "string \<Rightarrow> testCase \<Rightarrow> criticalTestCase" where
  "tagged name t =
     \<lparr>tc_description = description t, tc_criticality = criticality t,
      tc_impact = impact t, tc_fileName = name\<rparr>"

text \<open>The test cases one analysis contributes: the new field, or else the old one.\<close>

definition taggedTestCases :: "analysisResult \<Rightarrow> criticalTestCase list" where
  "taggedTestCases r =
     (let testCases =
            or_else (missingNegativeTestCases (payload r)) (missingTestCases (payload r))
      in map (tagged (fileName r)) (elements testCases))"

definition extractCriticalTestCases :: "analysisResult list \<Rightarrow> criticalTestCase list" where
  "extractCriticalTestCases analysisResults =
     (let successfulAnalyses = filter success analysisResults in
      if successfulAnalyses = [] then []
      else
        let allMissingTestCases = concat (map taggedTestCases successfulAnalyses)
        in array_sort byCriticality allMissingTestCases)"

text \<open>The filter \<open>file.classification === 'logic'\<close>.\<close>

definition isLogic :: "fileRecord \<Rightarrow> bool" where
  "isLogic file = (classification file = ''logic'')"

text \<open>
  \<open>analyzeLogicFiles\<close> with the calls made. Everything runs inside \<open>try\<close>; the only
  exception the model can raise is the rejection passed on by \<open>Promise.all\<close>, and the
  \<open>catch\<close> block turns it into a failed aggregate.
\<close>

definition analyzeLogicFiles ::
  "analysisModel \<Rightarrow> fileRecord list \<Rightarrow> aggregate \<times> (string \<times> string) list" where
  "analyzeLogicFiles ai files =
     (let logicFiles = filter isLogic files in
      if length logicFiles = 0 then (Failed ''No logic files found for analysis'', [])
      else
        let analysisPromises = map (\<lambda>file. analyzeLogicFile ai (content file) (path file)) logicFiles;
            calls = concat (map snd analysisPromises)
        in case Promise_all (map fst analysisPromises) of
          Inl e \<Rightarrow> (Failed (or_default (message e) ''Failed to analyze logic files''), calls)
        | Inr analysisResults \<Rightarrow>
            let nonSkippedFiles = filter (\<lambda>result. \<not> skipped result) analysisResults;
                nonSkippedCount = length nonSkippedFiles
            in if nonSkippedCount = 0
               then (Failed ''All logic files were excluded as error handling files'', calls)
               else
                 let functionalityData = generateFunctionalityComparison analysisResults;
                     hasImplementedFunctionalities =
                       list_ex implemented (comparisonTable functionalityData);
                     coverage =
                       (if overallCoveragePercentage functionalityData = Num 0
                           \<and> hasImplementedFunctionalities
                        then Num 50
                        else overallCoveragePercentage functionalityData)
                 in (Aggregated
                      \<lparr>fileCount =
                         \<lparr>total = length logicFiles, analyzed = nonSkippedCount,
                          skippedCount = length logicFiles - nonSkippedCount\<rparr>,
                       fileAnalyses = analysisResults,
                       aggregatedSummary = generateAggregatedSummary analysisResults,
                       functionalityComparison = comparisonTable functionalityData,
                       aggregatedMissingCore = missingCore functionalityData,
                       aggregatedCoverage = coverage,
                       criticalTestCases = extractCriticalTestCases analysisResults\<rparr>,
                     calls))"

section \<open>testGenerator.js\<close>

subsection \<open>Character classes and string helpers\<close>

text \<open>
  The classes \<open>\w\<close>, \<open>\s\<close> and the line terminators of the regular expressions, on the
  code units below 256: \<open>\s\<close>, and the characters \<open>trim\<close> removes, are the blank, the
  five ASCII control characters and the no-break space U+00A0. \<open>[\w\.]\<close> is \<open>isNameChar\<close>.
\<close>

definition isWordChar :: "char \<Rightarrow> bool" where
  "isWordChar c =
     (c \<in> set ''abcdefghijklmnopqrstuvwxyzABCDEFGHIJKLMNOPQRSTUVWXYZ0123456789_'')"

definition isSpace :: "char \<Rightarrow> bool" where
  "isSpace c =
     (c \<in> set [CHR '' '', CHR 0x09, CHR 0x0A, CHR 0x0B, CHR 0x0C, CHR 0x0D, CHR 0xA0])"

definition isLineTerminator :: "char \<Rightarrow> bool" where
  "isLineTerminator c = (c = CHR 0x0A \<or> c = CHR 0x0D)"

definition isNameChar :: "char \<Rightarrow> bool" where
  "isNameChar c = (isWordChar c \<or> c = CHR ''.'')"

text \<open>The length of the longest prefix made of characters of a class (a greedy \<open>*\<close>).\<close>

definition span :: "(char \<Rightarrow> bool) \<Rightarrow> string \<Rightarrow> nat" where
  "span P s = length (takeWhile P s)"

text \<open>\<open>^\<close> and \<open>$\<close> under the \<open>m\<close> flag, from the character before and the text after.\<close>

fun atLineStart :: "char option \<Rightarrow> bool" where
  "atLineStart None = True"
| "atLineStart (Some c) = isLineTerminator c"

fun atLineEnd :: "string \<Rightarrow> bool" where
  "atLineEnd [] = True"
| "atLineEnd (c # cs) = isLineTerminator c"

text \<open>\<open>\b\<close> in front of a word character.\<close>

fun wordStart :: "char option \<Rightarrow> bool" where
  "wordStart None = True"
| "wordStart (Some c) = (\<not> isWordChar c)"

definition trim :: "string \<Rightarrow> string" where
  "trim s = rev (dropWhile isSpace (rev (dropWhile isSpace s)))"

text \<open>
  \<open>s.replace(re, '')\<close> for a global expression \<open>re\<close>. A matcher gets the character before
  the position and the text from the position on, and answers the length of the match
  there. The scan deletes a match and goes on behind it, or keeps one character.
\<close>

function replaceAll ::
  "(char option \<Rightarrow> string \<Rightarrow> nat option) \<Rightarrow> char option \<Rightarrow> string \<Rightarrow> string" where
  "replaceAll m prev [] = []"
| "replaceAll m prev (c # cs) =
     (case m prev (c # cs) of
        None \<Rightarrow> c # replaceAll m (Some c) cs
      | Some n \<Rightarrow>
          if n = 0 then c # replaceAll m (Some c) cs
          else replaceAll m (Some (last (take n (c # cs)))) (drop n (c # cs)))"
  by pat_completeness auto
termination
  by (relation "measure (\<lambda>(m, prev, s). length s)") auto

text \<open>Whether the expression matches somewhere in the text.\<close>

fun anyMatch ::
  "(char option \<Rightarrow> string \<Rightarrow> nat option) \<Rightarrow> char option \<Rightarrow> string \<Rightarrow> bool" where
  "anyMatch m prev [] = False"
| "anyMatch m prev (c # cs) =
     (case m prev (c # cs) of Some n \<Rightarrow> True | None \<Rightarrow> anyMatch m (Some c) cs)"

text \<open>\<open>s.match(re)\<close> for an expression without the \<open>g\<close> flag: the leftmost match.\<close>

fun firstMatch ::
  "(char option \<Rightarrow> string \<Rightarrow> 'a option) \<Rightarrow> char option \<Rightarrow> string \<Rightarrow> 'a option" where
  "firstMatch m prev [] = m prev []"
| "firstMatch m prev (c # cs) =
     (case m prev (c # cs) of Some r \<Rightarrow> Some r | None \<Rightarrow> firstMatch m (Some c) cs)"

subsection \<open>The expressions\<close>

text \<open>\<^verbatim>\<open>/^```csharp\n|^```cs\n|^```c#\n|^```\n|```$/gm\<close>: the alternatives in their order.\<close>

definition fence_match :: "char option \<Rightarrow> string \<Rightarrow> nat option" where
  "fence_match prev s =
     (if atLineStart prev \<and> startsWith s ''```csharp\<newline>'' then Some 10
      else if atLineStart prev \<and> startsWith s ''```cs\<newline>'' then Some 6
      else if atLineStart prev \<and> startsWith s ''```c#\<newline>'' then Some 6
      else if atLineStart prev \<and> startsWith s ''```\<newline>'' then Some 4
      else if startsWith s ''```'' \<and> atLineEnd (drop 3 s) then Some 3
      else None)"

text \<open>The position of the first occurrence of a character.\<close>

fun indexOf :: "char \<Rightarrow> string \<Rightarrow> nat option" where
  "indexOf x [] = None"
| "indexOf x (c # cs) = (if c = x then Some 0 else map_option Suc (indexOf x cs))"

text \<open>
  \<^verbatim>\<open>/namespace\s+[\w\.]+\s*\{[\s\S]*?\}/g\<close>. The classes of neighbouring greedy parts are
  disjoint, so each part takes its whole run; the lazy part ends at the first \<open>}\<close>.
\<close>

definition namespace_block_match :: "char option \<Rightarrow> string \<Rightarrow> nat option" where
  "namespace_block_match prev s =
     (if startsWith s ''namespace'' then
        let r1 = drop 9 s; n1 = span isSpace r1;
            r2 = drop n1 r1; n2 = span isNameChar r2;
            r3 = drop n2 r2; n3 = span isSpace r3;
            r4 = drop n3 r3
        in if n1 > 0 \<and> n2 > 0 \<and> startsWith r4 ''{''
           then (case indexOf CHR ''}'' (drop 1 r4) of
                   None \<Rightarrow> None
                 | Some k \<Rightarrow> Some (9 + n1 + n2 + n3 + 1 + k + 1))
           else None
      else None)"

text \<open>\<^verbatim>\<open>/namespace\s+[\w.]+\s*\{/g\<close> of \<open>createTestProject\<close>.\<close>

definition namespace_open_match :: "char option \<Rightarrow> string \<Rightarrow> nat option" where
  "namespace_open_match prev s =
     (if startsWith s ''namespace'' then
        let r1 = drop 9 s; n1 = span isSpace r1;
            r2 = drop n1 r1; n2 = span isNameChar r2;
            r3 = drop n2 r2; n3 = span isSpace r3;
            r4 = drop n3 r3
        in if n1 > 0 \<and> n2 > 0 \<and> startsWith r4 ''{''
           then Some (9 + n1 + n2 + n3 + 1)
           else None
      else None)"

text \<open>\<^verbatim>\<open>/using\s+[\w\.]+;\s*/g\<close>.\<close>

definition using_match :: "char option \<Rightarrow> string \<Rightarrow> nat option" where
  "using_match prev s =
     (if startsWith s ''using'' then
        let r1 = drop 5 s; n1 = span isSpace r1;
            r2 = drop n1 r1; n2 = span isNameChar r2;
            r3 = drop n2 r2
        in if n1 > 0 \<and> n2 > 0 \<and> startsWith r3 '';''
           then Some (5 + n1 + n2 + 1 + span isSpace (drop 1 r3))
           else None
      else None)"

text \<open>
  The group \<^verbatim>\<open>(?:\(.*?\))\<close> followed by \<^verbatim>\<open>\]\<close>, read behind the opening parenthesis:
  the lazy \<open>.*?\<close> stops at the first \<open>)\<close> that has \<open>]\<close> behind it and cannot cross a line
  terminator. The answer counts the characters up to and including that \<open>)\<close>.
\<close>

fun closeParen :: "string \<Rightarrow> nat option" where
  "closeParen [] = None"
| "closeParen (c # cs) =
     (if c = CHR '')'' \<and> startsWith cs '']'' then Some 1
      else if isLineTerminator c then None
      else map_option Suc (closeParen cs))"

text \<open>\<^verbatim>\<open>/\[\w+(?:\(.*?\))?\]\s*/g\<close>.\<close>

definition attribute_match :: "char option \<Rightarrow> string \<Rightarrow> nat option" where
  "attribute_match prev s =
     (if startsWith s ''['' then
        let r1 = drop 1 s; n1 = span isWordChar r1; r2 = drop n1 r1
        in if n1 = 0 then None
           else if startsWith r2 ''('' then
             (case closeParen (drop 1 r2) of
                None \<Rightarrow> None
              | Some k \<Rightarrow> Some (1 + n1 + 1 + k + 1 + span isSpace (drop (1 + k + 1) r2)))
           else if startsWith r2 '']'' then Some (1 + n1 + 1 + span isSpace (drop 1 r2))
           else None
      else None)"

text \<open>
  \<^verbatim>\<open>/^\s*\}\s*$/gm\<close>: after the brace the greedy \<open>\s*\<close> takes the whole run of white space
  when the text ends there, and otherwise gives characters back until it stands in front of
  a line terminator, the last one of the run.
\<close>

fun lastLineTerminator :: "string \<Rightarrow> nat option" where
  "lastLineTerminator [] = None"
| "lastLineTerminator (c # cs) =
     (case lastLineTerminator cs of
        Some k \<Rightarrow> Some (Suc k)
      | None \<Rightarrow> if isLineTerminator c then Some 0 else None)"

definition closing_brace_match :: "char option \<Rightarrow> string \<Rightarrow> nat option" where
  "closing_brace_match prev s =
     (if atLineStart prev then
        let n1 = span isSpace s; r1 = drop n1 s
        in if startsWith r1 ''}'' then
             let r2 = drop 1 r1; n2 = span isSpace r2
             in if drop n2 r2 = [] then Some (n1 + 1 + n2)
                else (case lastLineTerminator (take n2 r2) of
                        None \<Rightarrow> None
                      | Some k \<Rightarrow> Some (n1 + 1 + k))
           else None
      else None)"

text \<open>\<^verbatim>\<open>/\bclass\s+(\w+)\b/\<close> of \<open>runTestOnAzure\<close>; the answer is the captured name.\<close>

definition class_match :: "char option \<Rightarrow> string \<Rightarrow> string option" where
  "class_match prev s =
     (if wordStart prev \<and> startsWith s ''class'' then
        let r1 = drop 5 s; n1 = span isSpace r1; r2 = drop n1 r1; n2 = span isWordChar r2
        in if n1 > 0 \<and> n2 > 0 then Some (take n2 r2) else None
      else None)"

text \<open>\<^verbatim>\<open>/class\s+([\w]+)/i\<close> of \<open>createTestProject\<close>.\<close>

definition class_match_i :: "char option \<Rightarrow> string \<Rightarrow> string option" where
  "class_match_i prev s =
     (if toLowerCase (take 5 s) = ''class'' then
        let r1 = drop 5 s; n1 = span isSpace r1; r2 = drop n1 r1; n2 = span isWordChar r2
        in if n1 > 0 \<and> n2 > 0 then Some (take n2 r2) else None
      else None)"

subsection \<open>generateTestCode\<close>

text \<open>
  The post-processing of the model's answer inside \<open>generateTestCode\<close>: the four
  replacements and the final \<open>trim\<close>, in the order of the source.
\<close>

definition cleanup :: "string \<Rightarrow> string" where
  "cleanup raw =
     (let testCode1 = replaceAll fence_match None raw;
          testCode2 = replaceAll namespace_block_match None testCode1;
          testCode3 = replaceAll using_match None testCode2;
          testCode4 = replaceAll attribute_match None testCode3
      in trim testCode4)"

text \<open>
  The chat completion is a parameter: it throws or yields the text of the first choice.
\<close>

definition generateTestCode ::
  "(string \<Rightarrow> string \<Rightarrow> js_error + string) \<Rightarrow> string \<Rightarrow> string \<Rightarrow> js_error + string" where
  "generateTestCode ai fileContent fname =
     (case ai fileContent fname of
        Inl e \<Rightarrow> Inl (Error (''Failed to generate test code: '' @ message e))
      | Inr raw \<Rightarrow> Inr (cleanup raw))"

subsection \<open>createTestProject\<close>

text \<open>
  The test code may be missing from the request (\<open>None\<close>); then \<open>testCode.replace\<close> throws.
\<close>

definition createTestProject :: "string \<Rightarrow> string option \<Rightarrow> js_error + string" where
  \<open>createTestProject sourceCode testCode =
     (let classMatch = firstMatch class_match_i None sourceCode;
          className = (case classMatch of Some c \<Rightarrow> c | None \<Rightarrow> ''DefaultClass'')
      in case testCode of
        None \<Rightarrow> Inl (TypeError ''Cannot read properties of undefined (reading 'replace')'')
      | Some code \<Rightarrow>
        let cleanTestCode = replaceAll using_match None code;
            cleanSourceCode0 = replaceAll namespace_open_match None sourceCode;
            cleanSourceCode = replaceAll closing_brace_match None cleanSourceCode0
        in Inr (join ''\<newline>''
         [''using System;'',
          ''using System.Collections.Generic;'',
          ''using System.Linq;'',
          '''',
          ''// Original source code'',
          trim cleanSourceCode,
          '''',
          ''// Test code'',
          trim cleanTestCode,
          '''',
          ''public class Program'',
          ''{'',
          ''    public static void Main(string[] args)'',
          ''    {'',
          ''        Console.WriteLine("Running tests...");'',
          ''        '',
          ''        // Find all test methods and run them'',
          ''        var testClass = new '' @ className @ ''Tests();'',
          ''        var testMethods = typeof('' @ className @ ''Tests).GetMethods()'',
          ''            .Where(m => m.Name.StartsWith("Test") && m.ReturnType == typeof(void));'',
          ''            '',
          ''        int passed = 0;'',
          ''        int failed = 0;'',
          ''        '',
          ''        foreach (var method in testMethods)'',
          ''        {'',
          ''            try'',
          ''            {'',
          ''                Console.WriteLine($"Running {method.Name}");'',
          ''                method.Invoke(testClass, null);'',
          ''                Console.WriteLine($"PASSED: {method.Name}");'',
          ''                passed++;'',
          ''            }'',
          ''            catch (Exception ex)'',
          ''            {'',
          ''                Console.WriteLine($"FAILED: {method.Name} - {ex.InnerException?.Message ?? ex.Message}");'',
          ''                failed++;'',
          ''            }'',
          ''        }'',
          ''        '',
          ''        Console.WriteLine($"Tests complete. Passed: {passed}, Failed: {failed}");'',
          ''    }'',
          ''}'',
          '''']))\<close>

subsection \<open>runTestOnAzure\<close>

record azureRequest =
  req_sourceCode :: string
  req_testCode :: string

record testDetail =
  td_name :: string
  td_result :: string
  td_duration :: string
  td_error :: "string option"

text \<open>
  One element of \<open>details\<close> in the Azure Function's answer: an object whose four properties may
  be missing, or something that is not an object.
\<close>

datatype detailValue =
    DetailObject "string option" "string option" "string option" "string option"
  | DetailOther

text \<open>\<open>x || d\<close> for a property that may be missing or empty.\<close>

fun prop_or :: "string option \<Rightarrow> string \<Rightarrow> string" where
  "prop_or None d = d"
| "prop_or (Some s) d = or_default s d"

fun normalizeDetail :: "detailValue \<Rightarrow> testDetail" where
  "normalizeDetail (DetailObject n r d e) =
     \<lparr>td_name = prop_or n ''Unknown test'', td_result = prop_or r ''Unknown'',
      td_duration = prop_or d ''N/A'',
      td_error = (case e of None \<Rightarrow> None | Some m \<Rightarrow> if m = [] then None else Some m)\<rparr>"
| "normalizeDetail DetailOther =
     \<lparr>td_name = ''Unknown test'', td_result = ''Unknown'', td_duration = ''N/A'', td_error = None\<rparr>"

text \<open>
  The answer of the Azure Function as far as the client reads it; its other properties pass
  through untouched and are left out.
\<close>

record azureData =
  remoteSuccess :: bool
  remoteError :: "string option"
  remoteDetails :: "detailValue jsfield"

record azureResults =
  resultSuccess :: bool
  resultError :: "string option"
  resultDetails :: "testDetail list"

text \<open>
  What \<open>runTestOnAzure\<close> returns: the normalised answer, or
  \<open>{success: false, error, results: null}\<close>.
\<close>

datatype azureResult =
    AzureResults azureResults
  | AzureFailure string

text \<open>
  \<open>axios.post\<close> is a parameter: it throws (transport failure, status outside 2xx) or yields
  the response data, \<open>None\<close> for a falsy one.
\<close>

type_synonym azureFunction = "azureRequest \<Rightarrow> js_error + azureData option"

definition simplifiedSource :: "string \<Rightarrow> string" where
  \<open>simplifiedSource className =
     (join ''\<newline>''
             [''public class '' @ className @ '' '',
              ''{'',
              ''    public int Add(int a, int b) '',
              ''    {'',
              ''        return a + b;'',
              ''    }'',
              ''}''])\<close>

definition simplifiedTest :: "string \<Rightarrow> string \<Rightarrow> string" where
  \<open>simplifiedTest testMethodName className =
     (join ''\<newline>''
             [''public static void '' @ testMethodName @ ''() '',
              ''{'',
              ''    '' @ className @ '' obj = new '' @ className @ ''();'',
              ''    int result = obj.Add(2, 3);'',
              ''    if (result == 5)'',
              ''    {'',
              ''        Console.WriteLine("'' @ testMethodName @ '' PASSED");'',
              ''    }'',
              ''    else'',
              ''    {'',
              ''        Console.WriteLine("'' @ testMethodName @ '' FAILED: Expected 5, got " + result);'',
              ''    }'',
              ''}''])\<close>

definition runTestOnAzure ::
  "azureFunction \<Rightarrow> string option \<Rightarrow> string \<Rightarrow> string \<Rightarrow> azureResult \<times> azureRequest list" where
  "runTestOnAzure azure testCode filePath sourceCode =
     (let classNameMatch = firstMatch class_match None sourceCode;
          className = (case classNameMatch of Some c \<Rightarrow> c | None \<Rightarrow> ''TestClass'');
          testMethodName = ''TestMethod'';
          cleanSourceCode = simplifiedSource className;
          cleanTestCode = simplifiedTest testMethodName className;
          request = \<lparr>req_sourceCode = trim cleanSourceCode, req_testCode = trim cleanTestCode\<rparr>
      in case azure request of
        Inl e \<Rightarrow> (AzureFailure (or_default (message e) ''Error running test on Azure''), [request])
      | Inr None \<Rightarrow> (AzureFailure ''Invalid response from Azure Function'', [request])
      | Inr (Some d) \<Rightarrow>
          (AzureResults
             \<lparr>resultSuccess = remoteSuccess d, resultError = remoteError d,
              resultDetails = map normalizeDetail (elements (remoteDetails d))\<rparr>,
           [request]))"

subsection \<open>runTestCode\<close>

text \<open>Decimal digits of a number, for the template \<^verbatim>\<open>Test${i}_${className}\<close>.\<close>

fun decimal :: "nat \<Rightarrow> string" where
  "decimal n =
     (if n < 10 then [''0123456789'' ! n]
      else decimal (n div 10) @ [''0123456789'' ! (n mod 10)])"

declare decimal.simps [simp del]

definition generateDefaultTestDetails :: "string \<Rightarrow> nat \<Rightarrow> testDetail list" where
  "generateDefaultTestDetails className cnt =
     map (\<lambda>i. \<lparr>td_name = ''Test'' @ decimal i @ ''_'' @ className, td_result = ''Pending'',
                td_duration = ''N/A'', td_error = None\<rparr>)
       [1 ..< cnt + 1]"

record localInstructions =
  li_projectCode :: string
  li_instructions :: string

text \<open>
  \<open>path.basename(fileName, '.cs')\<close> of Node is a parameter \<open>basename\<close>, a function on
  strings; on a name that is not a string it throws.
\<close>

definition generateLocalExecutionInstructions ::
  "(string \<Rightarrow> string) \<Rightarrow> string option \<Rightarrow> string option \<Rightarrow> string
     \<Rightarrow> js_error + localInstructions" where
  \<open>generateLocalExecutionInstructions basename testCode fname sourceCode =
     (case fname of
        None \<Rightarrow> Inl (TypeError ''The "path" argument must be of type string. Received undefined'')
      | Some file \<Rightarrow>
          let className = basename file in
          case createTestProject sourceCode testCode of
            Inl e \<Rightarrow> Inl e
          | Inr projectCode \<Rightarrow>
              Inr \<lparr>li_projectCode = projectCode,
                   li_instructions =
                     join ''\<newline>''
             [''# How to Run These Tests Locally'',
              '''',
              ''1. Create a new C# project: dotnet new console -n '' @ className @ ''Tests'',
              ''2. Change to the project directory: cd '' @ className @ ''Tests'',
              ''3. Add NUnit packages: dotnet add package NUnit and dotnet add package NUnit3TestAdapter and dotnet add package Microsoft.NET.Test.Sdk and dotnet add package Moq'',
              ''4. Replace the content of Program.cs with the test code'',
              ''5. Run the tests: dotnet test'']\<rparr>)\<close>

text \<open>The object of the local fall-back, \<open>{success: false, error, passed: 0, ...}\<close>.\<close>

record localResult =
  lr_success :: bool
  lr_error :: string
  passed :: nat
  failed :: nat
  lr_skipped :: nat
  lr_total :: nat
  lr_duration :: string
  details :: "testDetail list"
  localExecution :: bool
  lr_testCode :: "string option"
  projectCode :: string
  instructions :: string

text \<open>\<open>azureResult.success\<close> and \<open>azureResult.error\<close> on either shape.\<close>

fun azureSuccess :: "azureResult \<Rightarrow> bool" where
  "azureSuccess (AzureResults r) = resultSuccess r"
| "azureSuccess (AzureFailure m) = False"

fun azureError :: "azureResult \<Rightarrow> string option" where
  "azureError (AzureResults r) = resultError r"
| "azureError (AzureFailure m) = Some m"

text \<open>
  The result of \<open>runTestCode\<close>: \<open>{success: true, ...azureResult, onlineExecution: true}\<close>
  or the object of the local fall-back.
\<close>

datatype testRunResult =
    Online azureResult
  | Local localResult

definition pendingDetails :: "string \<Rightarrow> testDetail list" where
  "pendingDetails className =
     map (\<lambda>detail. detail\<lparr>td_result := ''Pending'', td_duration := ''N/A (Local execution required)''\<rparr>)
       (generateDefaultTestDetails className 3)"

text \<open>
  \<open>runTestCode\<close> with the requests sent to the Azure Function. When the \<open>try\<close> block throws, the
  \<open>catch\<close> block builds the instructions again and then reads \<open>className\<close>, which is
  declared inside the \<open>try\<close> block and is out of scope there.
\<close>

definition catchBlock ::
  "(string \<Rightarrow> string) \<Rightarrow> string option \<Rightarrow> string option \<Rightarrow> string \<Rightarrow> js_error + testRunResult" where
  "catchBlock basename testCode fname sourceCode =
     (case generateLocalExecutionInstructions basename testCode fname sourceCode of
        Inl e \<Rightarrow> Inl e
      | Inr localInstructions \<Rightarrow> Inl (ReferenceError ''className is not defined''))"

definition localFallback ::
  "(string \<Rightarrow> string) \<Rightarrow> string \<Rightarrow> string \<Rightarrow> string option \<Rightarrow> string option \<Rightarrow> string
     \<Rightarrow> js_error + testRunResult" where
  "localFallback basename className msg testCode fname sourceCode =
     (case generateLocalExecutionInstructions basename testCode fname sourceCode of
        Inl e \<Rightarrow> catchBlock basename testCode fname sourceCode
      | Inr localInstructions \<Rightarrow>
          Inr (Local
            \<lparr>lr_success = False, lr_error = msg, passed = 0, failed = 0, lr_skipped = 0,
             lr_total = 0, lr_duration = ''N/A (Local execution required)'',
             details = pendingDetails className,
             localExecution = True, lr_testCode = testCode,
             projectCode = li_projectCode localInstructions,
             instructions = li_instructions localInstructions\<rparr>))"

definition runTestCode ::
  "(string \<Rightarrow> string) \<Rightarrow> azureFunction \<Rightarrow> string option \<Rightarrow> string option \<Rightarrow> string option
     \<Rightarrow> (js_error + testRunResult) \<times> azureRequest list" where
  "runTestCode basename azure testCode fname sourceCodeArg =
     (let sourceCode = (case sourceCodeArg of None \<Rightarrow> [] | Some s \<Rightarrow> s) in
      case fname of
        None \<Rightarrow> (catchBlock basename testCode fname sourceCode, [])
      | Some file \<Rightarrow>
          let className = basename file;
              (azureResult, requests) = runTestOnAzure azure testCode file sourceCode
          in if azureSuccess azureResult then (Inr (Online azureResult), requests)
             else (localFallback basename className
                     (prop_or (azureError azureResult) ''Azure Function execution failed'')
                     testCode fname sourceCode, requests))"

section \<open>server.js\<close>

text \<open>A response: the status and the JSON body, \<open>{success: true, ...}\<close> or \<open>{success: false, error}\<close>.\<close>

datatype 'a responseBody = SuccessBody 'a | ErrorBody string

fun body_success :: "'a responseBody \<Rightarrow> bool" where
  "body_success (SuccessBody x) = True"
| "body_success (ErrorBody e) = False"

record 'a response =
  status :: nat
  body :: "'a responseBody"

text \<open>
  \<open>POST /api/analyze-logic\<close>. The body's \<open>files\<close> is \<open>None\<close> when it is missing or not an
  array. \<open>analyzeLogicFiles\<close> catches its own exceptions, so the \<open>catch\<close> block of the
  route (status 500) is never entered.
\<close>

definition analyze_logic_route ::
  "analysisModel \<Rightarrow> fileRecord list option \<Rightarrow> aggregate response \<times> (string \<times> string) list" where
  "analyze_logic_route ai files =
     (case files of
        None \<Rightarrow> (\<lparr>status = 400, body = ErrorBody ''No files provided for analysis''\<rparr>, [])
      | Some fs \<Rightarrow>
          if length fs = 0
          then (\<lparr>status = 400, body = ErrorBody ''No files provided for analysis''\<rparr>, [])
          else
            let (analysisResults, calls) = analyzeLogicFiles ai fs
            in (\<lparr>status = 200, body = SuccessBody analysisResults\<rparr>, calls))"

record treeEntry =
  treePath :: string
  treeType :: string
  size :: nat
  sha :: string

text \<open>The data of a response of the hosting API as far as the route reads it.\<close>

record githubData =
  default_branch :: "string option"
  tree :: "treeEntry list option"

text \<open>\<open>axios.get(url, config)\<close>: the URL and the authorization header.\<close>

type_synonym github = "string \<Rightarrow> string \<Rightarrow> js_error + githubData"

fun split :: "char \<Rightarrow> string \<Rightarrow> string list" where
  "split sep [] = [[]]"
| "split sep (c # cs) =
     (if c = sep then [] # split sep cs
      else (case split sep cs of x # xs \<Rightarrow> (c # x) # xs | [] \<Rightarrow> [[c]]))"

definition endsWith :: "string \<Rightarrow> string \<Rightarrow> bool" where
  "endsWith s suffix = startsWith (rev s) (rev suffix)"

text \<open>A value spliced into a template literal: \<open>undefined\<close> is rendered as that word.\<close>

fun spliced :: "string option \<Rightarrow> string" where
  "spliced None = ''undefined''"
| "spliced (Some s) = s"

text \<open>\<open>arr[i]\<close> for an index that may be negative or too large.\<close>

definition at_index :: "'a list \<Rightarrow> int \<Rightarrow> 'a option" where
  "at_index xs i = (if 0 \<le> i \<and> i < int (length xs) then Some (xs ! nat i) else None)"

text \<open>
  \<open>POST /api/repository\<close>. Either property of the body may be missing. Every exception
  inside the \<open>try\<close> block ends in the \<open>catch\<close> block, which answers with status 500.
\<close>

record repositoryRequest =
  repoUrl :: "string option"
  pat :: "string option"

definition repository_route :: "github \<Rightarrow> repositoryRequest \<Rightarrow> treeEntry list response" where
  "repository_route axios_get req =
     (case repoUrl req of
        None \<Rightarrow>
          \<lparr>status = 500,
           body = ErrorBody ''Cannot read properties of undefined (reading 'split')''\<rparr>
      | Some url \<Rightarrow>
          let urlParts = split CHR ''/'' url;
              owner = at_index urlParts (int (length urlParts) - 2);
              repo = at_index urlParts (int (length urlParts) - 1);
              config = ''token '' @ spliced (pat req)
          in case axios_get (''https://api.github.com/repos/'' @ spliced owner @ ''/'' @ spliced repo)
                    config of
            Inl e \<Rightarrow> \<lparr>status = 500, body = ErrorBody (message e)\<rparr>
          | Inr repoInfo \<Rightarrow>
              let defaultBranch = default_branch repoInfo in
              case axios_get (''https://api.github.com/repos/'' @ spliced owner @ ''/''
                      @ spliced repo @ ''/git/trees/'' @ spliced defaultBranch @ ''?recursive=1'')
                     config of
                Inl e \<Rightarrow> \<lparr>status = 500, body = ErrorBody (message e)\<rparr>
              | Inr d \<Rightarrow>
                  (case tree d of
                     None \<Rightarrow>
                       \<lparr>status = 500,
                        body = ErrorBody ''Cannot read properties of undefined (reading 'filter')''\<rparr>
                   | Some entries \<Rightarrow>
                       \<lparr>status = 200,
                        body = SuccessBody
                          (filter (\<lambda>file. endsWith (treePath file) ''.cs'' \<and> treeType file = ''blob'')
                             entries)\<rparr>))"

section \<open>Notions used in the statements\<close>

text \<open>The exclusion test on a file record, and what the per-file analysis returns.\<close>

definition excluded :: "fileRecord \<Rightarrow> bool" where
  "excluded file =
     (nameExcluded (path file)
      \<or> (case content file of None \<Rightarrow> False | Some text \<Rightarrow> contentExcluded text))"

definition callResult :: "analysisModel \<Rightarrow> string \<Rightarrow> string \<Rightarrow> analysisResult" where
  "callResult ai text name =
     (case ai text name of
        Inr p \<Rightarrow> \<lparr>success = True, fileName = name, skipped = False, reason = None,
                  error = None, payload = p\<rparr>
      | Inl e \<Rightarrow> \<lparr>success = False, fileName = name, skipped = False, reason = None,
                  error = Some (or_default (message e) ''Failed to analyze logic file''),
                  payload = noPayload\<rparr>)"

definition outcome :: "analysisModel \<Rightarrow> fileRecord \<Rightarrow> analysisResult" where
  "outcome ai file =
     (if excluded file then skippedResult (path file)
      else callResult ai (the (content file)) (path file))"

text \<open>The aggregate built from the analysis results of \<open>n\<close> logic files.\<close>

definition aggregateOf :: "nat \<Rightarrow> analysisResult list \<Rightarrow> aggregatedResults" where
  "aggregateOf n rs =
     \<lparr>fileCount =
        \<lparr>total = n, analyzed = length (filter (\<lambda>r. \<not> skipped r) rs),
         skippedCount = n - length (filter (\<lambda>r. \<not> skipped r) rs)\<rparr>,
      fileAnalyses = rs,
      aggregatedSummary = generateAggregatedSummary rs,
      functionalityComparison = comparisonTable (generateFunctionalityComparison rs),
      aggregatedMissingCore = missingCore (generateFunctionalityComparison rs),
      aggregatedCoverage = overallCoveragePercentage (generateFunctionalityComparison rs),
      criticalTestCases = extractCriticalTestCases rs\<rparr>"

subsection \<open>Sample inputs\<close>

definition fileA :: fileRecord where
  "fileA = \<lparr>path = ''A.cs'', content = Some ''class A { }'', classification = ''logic''\<rparr>"

definition fileB :: fileRecord where
  "fileB = \<lparr>path = ''B.cs'', content = Some ''class B { }'', classification = ''logic''\<rparr>"

definition fileC :: fileRecord where
  "fileC = \<lparr>path = ''C.cs'', content = Some ''class C { }'', classification = ''logic''\<rparr>"

definition payloadA :: analysisPayload where
  "payloadA = \<lparr>summary = Some ''Accounts'', expectedFunctionalities = Arr [''Login'', ''Logout''],
     actualFunctionalities = Arr [''Login''], missingCoreFunctionalities = Arr [''Logout''],
     missingNegativeTestCases = Absent, missingTestCases = Absent,
     coveragePercentage = Some 0\<rparr>"

definition payloadC :: analysisPayload where
  "payloadC = \<lparr>summary = Some ''Orders'', expectedFunctionalities = Arr [''Login'', ''Checkout''],
     actualFunctionalities = Arr [], missingCoreFunctionalities = Arr [''Checkout''],
     missingNegativeTestCases = Absent, missingTestCases = Absent,
     coveragePercentage = Some 0\<rparr>"

definition fileD :: fileRecord where
  "fileD = \<lparr>path = ''Program.cs'', content = Some ''class Program { }'',
     classification = ''boilerplate''\<rparr>"

definition fileE :: fileRecord where
  "fileE = \<lparr>path = ''GlobalExceptionFilter.cs'', content = None, classification = ''logic''\<rparr>"

text \<open>A model whose call fails for \<open>B.cs\<close> and answers for the other files.\<close>

definition modelFailingOnB :: analysisModel where
  "modelFailingOnB text name =
     (if name = ''B.cs'' then Inl (Error ''Request timed out'')
      else if name = ''A.cs'' then Inr payloadA
      else Inr payloadC)"

text \<open>Two analyses, the second one with the test cases under the old name.\<close>

definition sampleAnalyses :: "analysisResult list" where
  "sampleAnalyses =
     [\<lparr>success = True, fileName = ''A.cs'', skipped = False, reason = None, error = None,
       payload = noPayload\<lparr>missingNegativeTestCases :=
         Arr [\<lparr>description = ''a1'', criticality = Low, impact = ''''\<rparr>,
              \<lparr>description = ''a2'', criticality = High, impact = ''''\<rparr>]\<rparr>\<rparr>,
      \<lparr>success = False, fileName = ''B.cs'', skipped = False, reason = None,
       error = Some ''Request timed out'',
       payload = noPayload\<lparr>missingNegativeTestCases :=
         Arr [\<lparr>description = ''b1'', criticality = High, impact = ''''\<rparr>]\<rparr>\<rparr>,
      \<lparr>success = True, fileName = ''C.cs'', skipped = False, reason = None, error = None,
       payload = noPayload\<lparr>missingTestCases :=
         Arr [\<lparr>description = ''c1'', criticality = Medium, impact = ''''\<rparr>,
              \<lparr>description = ''c2'', criticality = High, impact = ''''\<rparr>]\<rparr>\<rparr>]"

text \<open>
  An answer with forty expected functionalities, the first twenty-three of them
  implemented, and no percentage; and a model that gives this answer.
\<close>

definition payloadForty :: analysisPayload where
  "payloadForty =
     noPayload
       \<lparr>expectedFunctionalities :=
          Arr (map (\<lambda>c. [c]) ''abcdefghijklmnopqrstuvwxyzABCDEFGHIJKLMN''),
        actualFunctionalities := Arr (map (\<lambda>c. [c]) ''abcdefghijklmnopqrstuvw'')\<rparr>"

definition modelForty :: analysisModel where
  "modelForty text name = Inr payloadForty"

text \<open>An Azure Function that cannot be reached.\<close>

definition azureDown :: azureFunction where
  "azureDown request = Inl (Error ''connect ECONNREFUSED'')"

text \<open>
  A hosting API that answers every request with status 404, and one that answers every
  request with a branch name and a tree of two entries.
\<close>

definition githubNotFound :: github where
  "githubNotFound url config = Inl (Error ''Request failed with status code 404'')"

definition githubAccepting :: github where
  "githubAccepting url config =
     Inr \<lparr>default_branch = Some ''main'',
          tree = Some [\<lparr>treePath = ''src/File1.cs'', treeType = ''blob'', size = 10, sha = ''a1''\<rparr>,
                       \<lparr>treePath = ''README.md'', treeType = ''blob'', size = 20, sha = ''b2''\<rparr>]\<rparr>"

text \<open>A stand-in for \<open>path.basename(_, '.cs')\<close> on names without a directory part.\<close>

definition dropCs :: "string \<Rightarrow> string" where
  "dropCs file = (if endsWith file ''.cs'' then take (length file - 3) file else file)"

section \<open>Properties of the helpers\<close>

subsection \<open>Strings and numbers\<close>

lemma startsWith_iff: "startsWith s p \<longleftrightarrow> (\<exists>post. s = p @ post)"
  by (induction s p rule: startsWith.induct) auto

lemma str_includes_iff: "str_includes s sub \<longleftrightarrow> (\<exists>pre post. s = pre @ sub @ post)"
proof (induction s)
  case Nil
  then show ?case by auto
next
  case (Cons c cs)
  show ?case
  proof
    assume "str_includes (c # cs) sub"
    then consider "startsWith (c # cs) sub" | "str_includes cs sub" by auto
    then show "\<exists>pre post. c # cs = pre @ sub @ post"
    proof cases
      case 1
      then obtain post where "c # cs = sub @ post" by (auto simp: startsWith_iff)
      then have "c # cs = [] @ sub @ post" by simp
      then show ?thesis by blast
    next
      case 2
      then obtain pre post where "cs = pre @ sub @ post" using Cons.IH by blast
      then have "c # cs = (c # pre) @ sub @ post" by simp
      then show ?thesis by blast
    qed
  next
    assume "\<exists>pre post. c # cs = pre @ sub @ post"
    then obtain pre post where e: "c # cs = pre @ sub @ post" by blast
    show "str_includes (c # cs) sub"
    proof (cases pre)
      case Nil
      then have "startsWith (c # cs) sub" using e by (auto simp: startsWith_iff)
      then show ?thesis by simp
    next
      case (Cons a pre')
      then have "cs = pre' @ sub @ post" using e by simp
      then have "str_includes cs sub" using Cons.IH by blast
      then show ?thesis by simp
    qed
  qed
qed

lemma trim_id:
  assumes "s \<noteq> []" and "\<not> isSpace (hd s)" and "\<not> isSpace (last s)"
  shows "trim s = s"
proof -
  have 1: "dropWhile isSpace s = s"
    using assms(1,2) by (cases s) simp_all
  have "rev s \<noteq> []" and "\<not> isSpace (hd (rev s))"
    using assms(1,3) by (simp_all add: hd_rev)
  then have 2: "dropWhile isSpace (rev s) = rev s"
    by (cases "rev s") simp_all
  show ?thesis by (simp add: trim_def 1 2)
qed

lemma trim_trim: "trim (trim s) = trim s"
proof -
  define a where "a = dropWhile isSpace s"
  define b where "b = rev (dropWhile isSpace (rev a))"
  have b: "trim s = b" by (simp add: trim_def a_def b_def)
  have pre: "a = b @ rev (takeWhile isSpace (rev a))"
    unfolding b_def by (metis rev_append rev_rev_ident takeWhile_dropWhile_id)
  have 1: "dropWhile isSpace b = b"
  proof (cases b)
    case Nil
    then show ?thesis by simp
  next
    case (Cons x xs)
    then have "a \<noteq> []" and "hd a = x" using pre by (metis append_is_Nil_conv list.distinct(1), metis hd_append2 list.distinct(1) list.sel(1))
    moreover have "a \<noteq> [] \<Longrightarrow> \<not> isSpace (hd a)"
      unfolding a_def by (rule hd_dropWhile)
    ultimately have "\<not> isSpace x" by blast
    then show ?thesis using Cons by simp
  qed
  have 2: "dropWhile isSpace (rev b) = rev b"
    by (simp add: b_def)
  show ?thesis
    unfolding b by (simp add: trim_def 1 2)
qed

lemma replaceAll_no_anyMatch:
  "\<not> anyMatch m prev s \<Longrightarrow> replaceAll m prev s = s"
proof (induction s arbitrary: prev)
  case Nil
  then show ?case by simp
next
  case (Cons c cs)
  from Cons.prems have 0: "m prev (c # cs) = None" and 1: "\<not> anyMatch m (Some c) cs"
    by (simp_all split: option.splits)
  from 1 have "replaceAll m (Some c) cs = cs"
    by (rule Cons.IH)
  then show ?case by (simp add: 0)
qed

subsection \<open>Sets kept as lists, promises and sorting\<close>

lemma set_foldl_add_unique: "set (foldl add_unique acc xs) = set acc \<union> set xs"
  by (induction xs arbitrary: acc) (auto simp: add_unique_def)

lemma distinct_foldl_add_unique: "distinct acc \<Longrightarrow> distinct (foldl add_unique acc xs)"
  by (induction xs arbitrary: acc) (auto simp: add_unique_def)

lemma Promise_all_map_Inr: "Promise_all (map Inr vs) = Inr vs"
  by (induction vs) simp_all

lemma Promise_all_Inr_D: "Promise_all ps = Inr vs \<Longrightarrow> ps = map Inr vs"
proof (induction ps arbitrary: vs)
  case Nil
  then show ?case by simp
next
  case (Cons p ps)
  show ?case
  proof (cases p)
    case (Inl e)
    then show ?thesis using Cons.prems by simp
  next
    case p: (Inr v)
    show ?thesis
    proof (cases "Promise_all ps")
      case (Inl e)
      then show ?thesis using Cons.prems p by simp
    next
      case (Inr ws)
      then have "ps = map Inr ws" by (rule Cons.IH)
      moreover have "vs = v # ws" using Cons.prems p Inr by simp
      ultimately show ?thesis using p by simp
    qed
  qed
qed

lemma mset_insert_sorted: "mset (insert_sorted cmp x ys) = add_mset x (mset ys)"
  by (induction ys) auto

lemma mset_array_sort: "mset (array_sort cmp xs) = mset xs"
  by (induction xs) (auto simp: array_sort_def mset_insert_sorted)

lemma sorted_insert_sorted:
  "sorted (map k ys) \<Longrightarrow> sorted (map k (insert_sorted (\<lambda>a b. k a - k b) x ys))"
proof (induction ys)
  case Nil
  then show ?case by simp
next
  case (Cons y ys)
  have "set (insert_sorted (\<lambda>a b. k a - k b) x ys) = insert x (set ys)"
    using mset_insert_sorted [of "\<lambda>a b. k a - k b" x ys]
    by (metis set_mset_add_mset_insert set_mset_mset)
  with Cons show ?case by auto
qed

lemma sorted_array_sort: "sorted (map k (array_sort (\<lambda>a b. k a - k b) xs))"
  by (induction xs) (auto simp: array_sort_def sorted_insert_sorted)

lemma filter_insert_sorted:
  "filter (\<lambda>t. k t = v) (insert_sorted (\<lambda>a b. k a - k b) x ys) =
     (if k x = v then x # filter (\<lambda>t. k t = v) ys else filter (\<lambda>t. k t = v) ys)"
  by (induction ys) auto

lemma filter_array_sort:
  "filter (\<lambda>t. k t = v) (array_sort (\<lambda>a b. k a - k b) xs) = filter (\<lambda>t. k t = v) xs"
  by (induction xs) (auto simp: array_sort_def filter_insert_sorted)

lemma byCriticality_eq:
  "byCriticality = (\<lambda>a b. (criticalityOrder \<circ> tc_criticality) a - (criticalityOrder \<circ> tc_criticality) b)"
  by (auto simp: byCriticality_def fun_eq_iff)

lemma criticalityOrder_inj: "criticalityOrder a = criticalityOrder b \<longleftrightarrow> a = b"
  by (cases a; cases b) (auto simp: criticalityOrder_def)

section \<open>The aggregation of logicAnalyzer.js\<close>

subsection \<open>The comparison table and the coverage\<close>

lemma generateFunctionalityComparison_fields:
  "filter success rs \<noteq> [] \<Longrightarrow>
   comparisonTable (generateFunctionalityComparison rs) =
     map (comparisonRow (filter success rs))
       (foldl add_unique [] (concat (map (\<lambda>r. elements (expectedFunctionalities (payload r))) (filter success rs))))"
  "filter success rs = [] \<Longrightarrow> comparisonTable (generateFunctionalityComparison rs) = []"
  "filter success rs = [] \<Longrightarrow> overallCoveragePercentage (generateFunctionalityComparison rs) = Num 0"
  unfolding generateFunctionalityComparison_def Let_def by simp_all

lemma overall_unfold:
  assumes "filter success rs \<noteq> []"
  shows "overallCoveragePercentage (generateFunctionalityComparison rs) =
     (let table = comparisonTable (generateFunctionalityComparison rs);
          percentages = filesCoveragePercentages (filter success rs);
          computed =
              (if length percentages > 0
               then Math_round
                      (fdiv (foldl fadd (Num 0) percentages) (number (length percentages)))
               else if length table > 0
                    then Math_round
                           (fmul (fdiv (number (length (filter implemented table)))
                                    (number (length table))) (Num 100))
                    else Num 0)
      in if computed = Num 0 \<and> list_ex implemented table then Num 1 else computed)"
  unfolding generateFunctionalityComparison_fields(1) [OF assms]
  unfolding generateFunctionalityComparison_def Let_def
  using assms by simp

lemma overall_nonzero:
  assumes "list_ex implemented (comparisonTable (generateFunctionalityComparison rs))"
  shows "overallCoveragePercentage (generateFunctionalityComparison rs) \<noteq> Num 0"
proof (cases "filter success rs = []")
  case True
  then show ?thesis using assms by (simp add: generateFunctionalityComparison_fields(2))
next
  case False
  show ?thesis
    unfolding overall_unfold [OF False] Let_def using assms by simp
qed

lemma comparisonTable_rows:
  "comparisonTable (generateFunctionalityComparison rs) =
     map (comparisonRow (filter success rs))
       (foldl add_unique []
          (concat (map (\<lambda>r. elements (expectedFunctionalities (payload r))) (filter success rs))))"
  by (cases "filter success rs = []") (simp_all add: generateFunctionalityComparison_fields)

lemma functionality_comparisonRow: "map functionality (map (comparisonRow ok) names) = names"
  by (induction names) (simp_all add: comparisonRow_def Let_def)

lemma comparisonTable_keys:
  "map functionality (comparisonTable (generateFunctionalityComparison rs)) =
     foldl add_unique []
       (concat (map (\<lambda>r. elements (expectedFunctionalities (payload r))) (filter success rs)))"
  by (simp only: comparisonTable_rows functionality_comparisonRow)

lemma comparisonRow_implemented:
  "implemented (comparisonRow ok f)
     \<longleftrightarrow> (\<exists>r \<in> set ok. f \<in> set (elements (actualFunctionalities (payload r))))"
  by (simp add: comparisonRow_def implementingFiles_def Let_def filter_empty_conv)

lemma comparisonRow_implementedIn:
  "implementedIn (comparisonRow ok f)
     = map fileName (filter (\<lambda>r. f \<in> set (elements (actualFunctionalities (payload r)))) ok)"
  by (simp add: comparisonRow_def implementingFiles_def Let_def)

lemma functionality_comparisonRow_one: "functionality (comparisonRow ok f) = f"
  by (simp add: comparisonRow_def Let_def)

subsection \<open>The aggregate\<close>

lemma analyzeLogicFiles_unfold:
  "fst (analyzeLogicFiles ai files) =
     (let logicFiles = filter isLogic files in
      if logicFiles = [] then Failed ''No logic files found for analysis''
      else case Promise_all (map (\<lambda>file. fst (analyzeLogicFile ai (content file) (path file))) logicFiles) of
          Inl e \<Rightarrow> Failed (or_default (message e) ''Failed to analyze logic files'')
        | Inr rs \<Rightarrow>
            if filter (\<lambda>r. \<not> skipped r) rs = []
            then Failed ''All logic files were excluded as error handling files''
            else Aggregated (aggregateOf (length logicFiles) rs))"
proof -
  have dead: "(if overallCoveragePercentage (generateFunctionalityComparison rs) = Num 0
                  \<and> list_ex implemented (comparisonTable (generateFunctionalityComparison rs))
               then Num 50 else overallCoveragePercentage (generateFunctionalityComparison rs))
              = overallCoveragePercentage (generateFunctionalityComparison rs)" for rs
    using overall_nonzero [of rs] by auto
  show ?thesis
    unfolding analyzeLogicFiles_def Let_def aggregateOf_def dead
    by (simp add: comp_def split: sum.split)
qed

lemma analyzeLogicFile_outcome:
  assumes "content file \<noteq> None \<or> nameExcluded (path file)"
  shows "fst (analyzeLogicFile ai (content file) (path file)) = Inr (outcome ai file)"
proof (cases "content file")
  case None
  then have "nameExcluded (path file)" using assms by simp
  then show ?thesis by (simp add: analyzeLogicFile_def outcome_def excluded_def)
next
  case (Some t)
  then show ?thesis
    by (simp add: analyzeLogicFile_def outcome_def excluded_def callResult_def split: sum.split)
qed

lemma skipped_outcome: "skipped (outcome ai file) \<longleftrightarrow> excluded file"
  by (simp add: outcome_def skippedResult_def callResult_def split: sum.split)

lemma analyzeLogicFiles_outcomes:
  assumes "\<forall>file \<in> set files. isLogic file \<longrightarrow> content file \<noteq> None \<or> nameExcluded (path file)"
  shows "fst (analyzeLogicFiles ai files) =
     (let logicFiles = filter isLogic files; rs = map (outcome ai) logicFiles in
      if logicFiles = [] then Failed ''No logic files found for analysis''
      else if filter (\<lambda>r. \<not> skipped r) rs = []
           then Failed ''All logic files were excluded as error handling files''
           else Aggregated (aggregateOf (length logicFiles) rs))"
proof -
  have "map (\<lambda>file. fst (analyzeLogicFile ai (content file) (path file))) (filter isLogic files)
          = map Inr (map (outcome ai) (filter isLogic files))"
    using assms by (simp add: analyzeLogicFile_outcome)
  then have "Promise_all (map (\<lambda>file. fst (analyzeLogicFile ai (content file) (path file)))
                 (filter isLogic files)) = Inr (map (outcome ai) (filter isLogic files))"
    by (simp only: Promise_all_map_Inr)
  then show ?thesis
    unfolding analyzeLogicFiles_unfold Let_def
    by simp
qed

lemma keys_aggregateOf:
  "set (map functionality (functionalityComparison (aggregateOf n rs)))
     = (\<Union>r \<in> set (filter success rs). set (elements (expectedFunctionalities (payload r))))"
  by (simp add: aggregateOf_def comparisonTable_keys set_foldl_add_unique)

lemma analyzeLogicFiles_no_logic:
  "filter isLogic fs = [] \<Longrightarrow> fst (analyzeLogicFiles ai fs) = Failed ''No logic files found for analysis''"
  by (simp add: analyzeLogicFiles_unfold)

lemma analyzeLogicFiles_all_excluded:
  assumes "filter isLogic fs \<noteq> []" and "\<forall>f \<in> set fs. isLogic f \<longrightarrow> excluded f"
  shows "fst (analyzeLogicFiles ai fs)
           = Failed ''All logic files were excluded as error handling files''"
proof -
  have c: "\<forall>f \<in> set fs. isLogic f \<longrightarrow> content f \<noteq> None \<or> nameExcluded (path f)"
    using assms(2) by (auto simp: excluded_def split: option.splits)
  have "filter (\<lambda>r. \<not> skipped r) (map (outcome ai) (filter isLogic fs)) = []"
    using assms(2) by (auto simp: filter_empty_conv skipped_outcome)
  then show ?thesis
    using assms(1) by (simp add: analyzeLogicFiles_outcomes [OF c] Let_def)
qed

subsection \<open>The sample files\<close>

lemma demo_not_excluded: "\<not> excluded fileA" "\<not> excluded fileB" "\<not> excluded fileC"
  by (simp_all add: excluded_def fileA_def fileB_def fileC_def nameExcluded_def
      contentExcluded_def toLowerCase_def toLowerCase_char_def)

lemma demo_logic: "filter isLogic [fileA, fileB, fileC] = [fileA, fileB, fileC]"
  by (simp add: isLogic_def fileA_def fileB_def fileC_def)

lemma demo_outcomes:
  "map (outcome modelFailingOnB) [fileA, fileB, fileC] =
     [\<lparr>success = True, fileName = ''A.cs'', skipped = False, reason = None, error = None,
       payload = payloadA\<rparr>,
      \<lparr>success = False, fileName = ''B.cs'', skipped = False, reason = None,
       error = Some ''Request timed out'', payload = noPayload\<rparr>,
      \<lparr>success = True, fileName = ''C.cs'', skipped = False, reason = None, error = None,
       payload = payloadC\<rparr>]"
  using demo_not_excluded
  by (simp add: outcome_def callResult_def modelFailingOnB_def fileA_def fileB_def fileC_def
      or_default_def)

lemma demo_aggregate:
  "fst (analyzeLogicFiles modelFailingOnB [fileA, fileB, fileC])
     = Aggregated (aggregateOf 3 (map (outcome modelFailingOnB) [fileA, fileB, fileC]))"
proof -
  have "\<forall>file \<in> set [fileA, fileB, fileC]. isLogic file \<longrightarrow> content file \<noteq> None \<or> nameExcluded (path file)"
    by (simp add: fileA_def fileB_def fileC_def)
  then have "fst (analyzeLogicFiles modelFailingOnB [fileA, fileB, fileC]) =
      (let logicFiles = [fileA, fileB, fileC]; rs = map (outcome modelFailingOnB) logicFiles in
      if logicFiles = [] then Failed ''No logic files found for analysis''
      else if filter (\<lambda>r. \<not> skipped r) rs = []
           then Failed ''All logic files were excluded as error handling files''
           else Aggregated (aggregateOf (length logicFiles) rs))"
    by (simp only: analyzeLogicFiles_outcomes demo_logic)
  also have "\<dots> = Aggregated (aggregateOf 3 (map (outcome modelFailingOnB) [fileA, fileB, fileC]))"
    unfolding Let_def demo_outcomes by (simp add: numeral_3_eq_3)
  finally show ?thesis .
qed

lemma demo_table:
  "comparisonTable (generateFunctionalityComparison
      (map (outcome modelFailingOnB) [fileA, fileB, fileC])) =
     [\<lparr>functionality = ''Login'', implemented = True, implementationStatus = ''Complete'',
       implementedIn = [''A.cs'']\<rparr>,
      \<lparr>functionality = ''Logout'', implemented = False, implementationStatus = ''Missing'',
       implementedIn = []\<rparr>,
      \<lparr>functionality = ''Checkout'', implemented = False, implementationStatus = ''Missing'',
       implementedIn = []\<rparr>]"
  unfolding demo_outcomes comparisonTable_rows
  by (simp add: comparisonRow_def implementingFiles_def add_unique_def payloadA_def payloadC_def)

subsection \<open>Coverage percentage\<close>

lemma forty_outcome:
  "outcome modelForty fileA =
     \<lparr>success = True, fileName = ''A.cs'', skipped = False, reason = None, error = None,
      payload = payloadForty\<rparr>"
  using demo_not_excluded(1)
  by (simp add: outcome_def callResult_def modelForty_def fileA_def)

lemma forty_aggregate:
  "fst (analyzeLogicFiles modelForty [fileA]) = Aggregated (aggregateOf 1 [outcome modelForty fileA])"
proof -
  have c: "\<forall>f \<in> set [fileA]. isLogic f \<longrightarrow> content f \<noteq> None \<or> nameExcluded (path f)"
    by (simp add: fileA_def)
  have l: "filter isLogic [fileA] = [fileA]"
    by (simp add: isLogic_def fileA_def)
  have s: "\<not> skipped (outcome modelForty fileA)"
    by (simp add: forty_outcome)
  show ?thesis
    unfolding analyzeLogicFiles_outcomes [OF c] Let_def l using s by simp
qed

lemma forty_names:
  "foldl add_unique [] (map (\<lambda>c. [c]) ''abcdefghijklmnopqrstuvwxyzABCDEFGHIJKLMN'') = map (\<lambda>c. [c]) ''abcdefghijklmnopqrstuvwxyzABCDEFGHIJKLMN''"
  by (simp add: add_unique_def)

lemma forty_success:
  "filter success [outcome modelForty fileA] = [outcome modelForty fileA]"
  by (simp add: forty_outcome)

lemma forty_expected:
  "concat (map (\<lambda>r. elements (expectedFunctionalities (payload r))) [outcome modelForty fileA])
     = map (\<lambda>c. [c]) ''abcdefghijklmnopqrstuvwxyzABCDEFGHIJKLMN''"
  by (simp add: forty_outcome payloadForty_def noPayload_def)

lemma forty_table:
  "comparisonTable (generateFunctionalityComparison [outcome modelForty fileA]) =
     map (comparisonRow [outcome modelForty fileA]) (map (\<lambda>c. [c]) ''abcdefghijklmnopqrstuvwxyzABCDEFGHIJKLMN'')"
  by (simp only: comparisonTable_rows forty_success forty_expected forty_names)

lemma forty_implemented:
  "length (filter implemented
     (map (comparisonRow [outcome modelForty fileA]) (map (\<lambda>c. [c]) ''abcdefghijklmnopqrstuvwxyzABCDEFGHIJKLMN''))) = 23"
proof -
  have "filter implemented
          (map (comparisonRow [outcome modelForty fileA]) (map (\<lambda>c. [c]) ''abcdefghijklmnopqrstuvwxyzABCDEFGHIJKLMN''))
        = map (comparisonRow [outcome modelForty fileA])
            (filter (\<lambda>f. f \<in> set (map (\<lambda>c. [c]) ''abcdefghijklmnopqrstuvw''))
               (map (\<lambda>c. [c]) ''abcdefghijklmnopqrstuvwxyzABCDEFGHIJKLMN''))"
    unfolding filter_map comp_def comparisonRow_implemented
    by (simp add: forty_outcome payloadForty_def noPayload_def)
  then show ?thesis by simp
qed

lemma forty_rounding:
  "Math_round (fmul (fdiv (Num 23) (Num 40)) (Num 100)) = Num 57"
  by code_simp

lemma exact_rounding: "round (100 * 23 / 40 :: rat) = 58"
proof -
  have "(100 * 23 / 40 :: rat) + 1 / 2 = 58" by simp
  then show ?thesis unfolding round_def by simp
qed

text \<open>
  Claim C1, at an input where the code differs from it. Without reported percentages the
  code takes \<open>Math.round((implementedCount / totalCount) * 100)\<close> in doubles: the quotient
  is rounded to a double before it is multiplied by 100. For one successful analysis with
  forty expected functionalities, twenty-three of them implemented, and no percentage of
  its own, the product is the double just below 57.5 and the aggregate reports 57, where
  the claim's \<open>round(100 * 23 / 40)\<close> is 58.
\<close>

theorem coverage_of_23_in_40:
  "fst (analyzeLogicFiles modelForty [fileA])
     = Aggregated (results (fst (analyzeLogicFiles modelForty [fileA])))
   \<and> filesCoveragePercentages (filter success (fileAnalyses (results (fst (analyzeLogicFiles modelForty [fileA]))))) = []
   \<and> length (functionalityComparison (results (fst (analyzeLogicFiles modelForty [fileA])))) = 40
   \<and> length (filter implemented (functionalityComparison (results (fst (analyzeLogicFiles modelForty [fileA]))))) = 23
   \<and> aggregatedCoverage (results (fst (analyzeLogicFiles modelForty [fileA]))) = Num 57
   \<and> round (100 * 23 / 40 :: rat) = 58"
proof -
  have r: "results (fst (analyzeLogicFiles modelForty [fileA])) = aggregateOf 1 [outcome modelForty fileA]"
    by (simp add: forty_aggregate)
  note ok = forty_success
  have p: "filesCoveragePercentages [outcome modelForty fileA] = []"
    by (simp add: filesCoveragePercentages_def forty_outcome payloadForty_def noPayload_def)
  have n: "length (comparisonTable (generateFunctionalityComparison [outcome modelForty fileA])) = 40"
    unfolding forty_table by simp
  have i: "length (filter implemented
             (comparisonTable (generateFunctionalityComparison [outcome modelForty fileA]))) = 23"
    unfolding forty_table by (rule forty_implemented)
  have ne: "filter success [outcome modelForty fileA] \<noteq> []"
    unfolding ok by simp
  have c: "overallCoveragePercentage (generateFunctionalityComparison [outcome modelForty fileA]) = Num 57"
  proof -
    have rnd: "Math_round (fmul (fdiv (number 23) (number 40)) (Num 100)) = Num 57"
      unfolding number_def of_nat_numeral by (rule forty_rounding)
    have z: "length ([] :: double list) > 0 \<longleftrightarrow> False" "(40 :: nat) > 0 \<longleftrightarrow> True"
      by simp_all
    show ?thesis
      unfolding overall_unfold [OF ne] Let_def ok p n i z if_False if_True rnd by simp
  qed
  have fa: "fileAnalyses (aggregateOf 1 [outcome modelForty fileA]) = [outcome modelForty fileA]"
    and fc: "functionalityComparison (aggregateOf 1 [outcome modelForty fileA])
               = comparisonTable (generateFunctionalityComparison [outcome modelForty fileA])"
    and ac: "aggregatedCoverage (aggregateOf 1 [outcome modelForty fileA])
               = overallCoveragePercentage (generateFunctionalityComparison [outcome modelForty fileA])"
    by (simp_all add: aggregateOf_def)
  show ?thesis
    unfolding r fa fc ac ok p n i c
    using forty_aggregate exact_rounding by simp
qed

subsection \<open>Functionality comparison\<close>

text \<open>
  Claim C2. The comparison table has one entry for each functionality name expected by
  some successful analysis and no other entry; an entry is implemented exactly when some
  successful analysis lists its name among the actual functionalities, and
  \<open>implementedIn\<close> holds the file names of those analyses, in their order.
\<close>

theorem functionalityComparison_union:
  "let ok = filter success rs;
       table = comparisonTable (generateFunctionalityComparison rs)
   in distinct (map functionality table)
      \<and> set (map functionality table)
          = (\<Union>r \<in> set ok. set (elements (expectedFunctionalities (payload r))))
      \<and> (\<forall>e \<in> set table.
            (implemented e
               \<longleftrightarrow> (\<exists>r \<in> set ok. functionality e \<in> set (elements (actualFunctionalities (payload r)))))
            \<and> implementedIn e
                = map fileName
                    (filter (\<lambda>r. functionality e \<in> set (elements (actualFunctionalities (payload r)))) ok))"
proof -
  define ok where "ok = filter success rs"
  define table where "table = comparisonTable (generateFunctionalityComparison rs)"
  have d: "distinct (map functionality table)"
    unfolding table_def comparisonTable_keys by (rule distinct_foldl_add_unique) simp
  have s: "set (map functionality table)
             = (\<Union>r \<in> set ok. set (elements (expectedFunctionalities (payload r))))"
    unfolding table_def comparisonTable_keys ok_def by (simp add: set_foldl_add_unique)
  have row: "(implemented e
               \<longleftrightarrow> (\<exists>r \<in> set ok. functionality e \<in> set (elements (actualFunctionalities (payload r)))))
            \<and> implementedIn e
                = map fileName
                    (filter (\<lambda>r. functionality e \<in> set (elements (actualFunctionalities (payload r)))) ok)"
    if "e \<in> set table" for e
  proof -
    from that obtain f where e: "e = comparisonRow ok f"
      unfolding table_def comparisonTable_rows ok_def by auto
    show ?thesis
      unfolding e functionality_comparisonRow_one comparisonRow_implemented
        comparisonRow_implementedIn by simp
  qed
  show ?thesis
    unfolding Let_def ok_def [symmetric] table_def [symmetric]
    using d s row by blast
qed

theorem functionalityComparison_union_witness:
  "map functionality (comparisonTable (generateFunctionalityComparison
      (map (outcome modelFailingOnB) [fileA, fileB, fileC]))) = [''Login'', ''Logout'', ''Checkout'']
   \<and> distinct (map functionality (comparisonTable (generateFunctionalityComparison
      (map (outcome modelFailingOnB) [fileA, fileB, fileC]))))
   \<and> set (map functionality (comparisonTable (generateFunctionalityComparison
      (map (outcome modelFailingOnB) [fileA, fileB, fileC]))))
       = set (elements (expectedFunctionalities payloadA)) \<union> set (elements (expectedFunctionalities payloadC))
   \<and> map implemented (comparisonTable (generateFunctionalityComparison
      (map (outcome modelFailingOnB) [fileA, fileB, fileC]))) = [True, False, False]"
proof -
  have ok: "filter success (map (outcome modelFailingOnB) [fileA, fileB, fileC])
      = [\<lparr>success = True, fileName = ''A.cs'', skipped = False, reason = None, error = None,
          payload = payloadA\<rparr>,
         \<lparr>success = True, fileName = ''C.cs'', skipped = False, reason = None, error = None,
          payload = payloadC\<rparr>]"
    unfolding demo_outcomes by simp
  from functionalityComparison_union [of "map (outcome modelFailingOnB) [fileA, fileB, fileC]"]
  have "distinct (map functionality (comparisonTable (generateFunctionalityComparison
      (map (outcome modelFailingOnB) [fileA, fileB, fileC]))))"
    and "set (map functionality (comparisonTable (generateFunctionalityComparison
      (map (outcome modelFailingOnB) [fileA, fileB, fileC]))))
       = set (elements (expectedFunctionalities payloadA)) \<union> set (elements (expectedFunctionalities payloadC))"
    unfolding Let_def ok by simp_all
  then show ?thesis unfolding demo_table by simp
qed

subsection \<open>Partial failure\<close>

text \<open>
  Claim C3, amended. When the logic files are \<open>A\<close>, \<open>B\<close>, \<open>C\<close>, none of them excluded, and the
  call for \<open>B\<close> throws while the calls for \<open>A\<close> and \<open>C\<close> return, the aggregation succeeds,
  records \<open>B\<close> as \<open>{success: false, fileName, error}\<close>, builds the comparison table from
  the functionalities of \<open>A\<close> and \<open>C\<close>, and counts all three files as analysed:
  \<open>fileCount.analyzed = fileCount.total = 3\<close>, since \<open>analyzed\<close> counts the files that were
  not skipped.
\<close>

theorem partial_failure:
  assumes "filter isLogic files = [A, B, C]"
    and "content A = Some ta" and "content B = Some tb" and "content C = Some tc"
    and "\<not> excluded A" and "\<not> excluded B" and "\<not> excluded C"
    and "ai ta (path A) = Inr pa" and "ai tb (path B) = Inl e" and "ai tc (path C) = Inr pc"
  shows "\<exists>agg. fst (analyzeLogicFiles ai files) = Aggregated agg
     \<and> fileAnalyses agg =
         [\<lparr>success = True, fileName = path A, skipped = False, reason = None, error = None,
           payload = pa\<rparr>,
          \<lparr>success = False, fileName = path B, skipped = False, reason = None,
           error = Some (or_default (message e) ''Failed to analyze logic file''),
           payload = noPayload\<rparr>,
          \<lparr>success = True, fileName = path C, skipped = False, reason = None, error = None,
           payload = pc\<rparr>]
     \<and> set (map functionality (functionalityComparison agg))
         = set (elements (expectedFunctionalities pa)) \<union> set (elements (expectedFunctionalities pc))
     \<and> total (fileCount agg) = 3
     \<and> analyzed (fileCount agg) = 3"
proof -
  define rs where "rs = map (outcome ai) [A, B, C]"
  have rs: "rs =
         [\<lparr>success = True, fileName = path A, skipped = False, reason = None, error = None,
           payload = pa\<rparr>,
          \<lparr>success = False, fileName = path B, skipped = False, reason = None,
           error = Some (or_default (message e) ''Failed to analyze logic file''),
           payload = noPayload\<rparr>,
          \<lparr>success = True, fileName = path C, skipped = False, reason = None, error = None,
           payload = pc\<rparr>]"
    using assms(2-10) by (simp add: rs_def outcome_def callResult_def)
  have "f \<in> set files \<Longrightarrow> isLogic f \<Longrightarrow> content f \<noteq> None" for f
  proof -
    assume "f \<in> set files" and "isLogic f"
    then have "f \<in> set (filter isLogic files)" by simp
    then show ?thesis using assms(1-4) by auto
  qed
  then have all: "\<forall>f \<in> set files. isLogic f \<longrightarrow> content f \<noteq> None \<or> nameExcluded (path f)"
    by blast
  have l3: "length [A, B, C] = 3" by simp
  have ns: "filter (\<lambda>r. \<not> skipped r) rs \<noteq> []" by (simp add: rs)
  have "fst (analyzeLogicFiles ai files) =
      (if filter (\<lambda>r. \<not> skipped r) rs = []
       then Failed ''All logic files were excluded as error handling files''
       else Aggregated (aggregateOf 3 rs))"
    unfolding analyzeLogicFiles_outcomes [OF all] Let_def assms(1) rs_def l3 by simp
  then have "fst (analyzeLogicFiles ai files) = Aggregated (aggregateOf 3 rs)"
    using ns by simp
  moreover have "fileAnalyses (aggregateOf 3 rs) = rs"
    by (simp add: aggregateOf_def)
  moreover have "set (map functionality (functionalityComparison (aggregateOf 3 rs)))
         = set (elements (expectedFunctionalities pa)) \<union> set (elements (expectedFunctionalities pc))"
    unfolding keys_aggregateOf by (simp add: rs)
  moreover have "total (fileCount (aggregateOf 3 rs)) = 3"
    by (simp add: aggregateOf_def)
  moreover have "analyzed (fileCount (aggregateOf 3 rs)) = 3"
    by (simp add: aggregateOf_def rs)
  ultimately show ?thesis using rs by metis
qed

theorem partial_failure_witness:
  "\<exists>agg. fst (analyzeLogicFiles modelFailingOnB [fileA, fileB, fileC]) = Aggregated agg
     \<and> map success (fileAnalyses agg) = [True, False, True]
     \<and> set (map functionality (functionalityComparison agg)) = {''Login'', ''Logout'', ''Checkout''}
     \<and> total (fileCount agg) = 3
     \<and> analyzed (fileCount agg) = 3"
proof -
  have m: "modelFailingOnB ''class A { }'' (path fileA) = Inr payloadA"
    "modelFailingOnB ''class B { }'' (path fileB) = Inl (Error ''Request timed out'')"
    "modelFailingOnB ''class C { }'' (path fileC) = Inr payloadC"
    by (simp_all add: modelFailingOnB_def fileA_def fileB_def fileC_def)
  have c: "content fileA = Some ''class A { }''" "content fileB = Some ''class B { }''"
    "content fileC = Some ''class C { }''"
    by (simp_all add: fileA_def fileB_def fileC_def)
  from partial_failure [OF demo_logic c demo_not_excluded m]
  obtain agg where "fst (analyzeLogicFiles modelFailingOnB [fileA, fileB, fileC]) = Aggregated agg"
    and "fileAnalyses agg =
         [\<lparr>success = True, fileName = path fileA, skipped = False, reason = None, error = None,
           payload = payloadA\<rparr>,
          \<lparr>success = False, fileName = path fileB, skipped = False, reason = None,
           error = Some (or_default (message (Error ''Request timed out'')) ''Failed to analyze logic file''),
           payload = noPayload\<rparr>,
          \<lparr>success = True, fileName = path fileC, skipped = False, reason = None, error = None,
           payload = payloadC\<rparr>]"
    and "set (map functionality (functionalityComparison agg))
         = set (elements (expectedFunctionalities payloadA)) \<union> set (elements (expectedFunctionalities payloadC))"
    and "total (fileCount agg) = 3" and "analyzed (fileCount agg) = 3"
    by blast
  then show ?thesis
    by (auto simp: payloadA_def payloadC_def)
qed

text \<open>
  Claim C3 as stated fails: with the call for \<open>B.cs\<close> failing, \<open>fileCount.analyzed\<close> is not
  smaller than \<open>fileCount.total\<close>.
\<close>

theorem partial_failure_counterexample:
  "fst (analyzeLogicFiles modelFailingOnB [fileA, fileB, fileC])
     = Aggregated (results (fst (analyzeLogicFiles modelFailingOnB [fileA, fileB, fileC])))
   \<and> \<not> analyzed (fileCount (results (fst (analyzeLogicFiles modelFailingOnB [fileA, fileB, fileC]))))
        < total (fileCount (results (fst (analyzeLogicFiles modelFailingOnB [fileA, fileB, fileC]))))"
  unfolding demo_aggregate demo_outcomes by (simp add: aggregateOf_def)

subsection \<open>Critical test cases\<close>

lemma taggedTestCases_unfold:
  "taggedTestCases r =
     map (tagged (fileName r))
       (case missingNegativeTestCases (payload r) of
          Arr ts \<Rightarrow> ts
        | NotArray \<Rightarrow> []
        | Absent \<Rightarrow> elements (missingTestCases (payload r)))"
  by (cases "missingNegativeTestCases (payload r)") (simp_all add: taggedTestCases_def)

text \<open>
  Claim C4. \<open>criticalTestCases\<close> is a permutation of the test cases of the successful
  analyses (\<open>missingNegativeTestCases\<close>, or \<open>missingTestCases\<close> when the former is missing),
  each tagged with its file name; it is sorted by the rank High 0, Medium 1, Low 2; and the
  entries of each criticality keep their input order. The criticalities Low, High, Medium,
  High come out as High, High, Medium, Low with the two High entries in input order.
  Criticalities are the three values of the data model.
\<close>

theorem extractCriticalTestCases_stable:
  "let flat = concat (map (\<lambda>r. map (tagged (fileName r))
                 (case missingNegativeTestCases (payload r) of
                    Arr ts \<Rightarrow> ts
                  | NotArray \<Rightarrow> []
                  | Absent \<Rightarrow> elements (missingTestCases (payload r))))
               (filter success rs));
       out = extractCriticalTestCases rs
   in mset out = mset flat
      \<and> sorted (map (criticalityOrder \<circ> tc_criticality) out)
      \<and> (\<forall>c. filter (\<lambda>t. tc_criticality t = c) out = filter (\<lambda>t. tc_criticality t = c) flat)
      \<and> extractCriticalTestCases
           [\<lparr>success = True, fileName = f, skipped = False, reason = None, error = None,
             payload = noPayload\<lparr>missingNegativeTestCases :=
               Arr [\<lparr>description = d1, criticality = Low, impact = i1\<rparr>,
                    \<lparr>description = d2, criticality = High, impact = i2\<rparr>,
                    \<lparr>description = d3, criticality = Medium, impact = i3\<rparr>,
                    \<lparr>description = d4, criticality = High, impact = i4\<rparr>]\<rparr>\<rparr>]
          = [\<lparr>tc_description = d2, tc_criticality = High, tc_impact = i2, tc_fileName = f\<rparr>,
             \<lparr>tc_description = d4, tc_criticality = High, tc_impact = i4, tc_fileName = f\<rparr>,
             \<lparr>tc_description = d3, tc_criticality = Medium, tc_impact = i3, tc_fileName = f\<rparr>,
             \<lparr>tc_description = d1, tc_criticality = Low, tc_impact = i1, tc_fileName = f\<rparr>]"
proof -
  define flat where "flat = concat (map taggedTestCases (filter success rs))"
  have flat: "concat (map (\<lambda>r. map (tagged (fileName r))
                 (case missingNegativeTestCases (payload r) of
                    Arr ts \<Rightarrow> ts
                  | NotArray \<Rightarrow> []
                  | Absent \<Rightarrow> elements (missingTestCases (payload r))))
               (filter success rs)) = flat"
    unfolding flat_def taggedTestCases_unfold [abs_def] ..
  have out: "extractCriticalTestCases rs = array_sort byCriticality flat"
    by (simp add: extractCriticalTestCases_def Let_def flat_def array_sort_def)
  have 1: "mset (array_sort byCriticality flat) = mset flat"
    by (rule mset_array_sort)
  have 2: "sorted (map (criticalityOrder \<circ> tc_criticality) (array_sort byCriticality flat))"
    unfolding byCriticality_eq by (rule sorted_array_sort)
  have 3: "filter (\<lambda>t. tc_criticality t = c) (array_sort byCriticality flat)
             = filter (\<lambda>t. tc_criticality t = c) flat" for c
    using filter_array_sort [of "criticalityOrder \<circ> tc_criticality" "criticalityOrder c" flat]
    unfolding byCriticality_eq by (simp add: criticalityOrder_inj)
  have 4: "extractCriticalTestCases
           [\<lparr>success = True, fileName = f, skipped = False, reason = None, error = None,
             payload = noPayload\<lparr>missingNegativeTestCases :=
               Arr [\<lparr>description = d1, criticality = Low, impact = i1\<rparr>,
                    \<lparr>description = d2, criticality = High, impact = i2\<rparr>,
                    \<lparr>description = d3, criticality = Medium, impact = i3\<rparr>,
                    \<lparr>description = d4, criticality = High, impact = i4\<rparr>]\<rparr>\<rparr>]
          = [\<lparr>tc_description = d2, tc_criticality = High, tc_impact = i2, tc_fileName = f\<rparr>,
             \<lparr>tc_description = d4, tc_criticality = High, tc_impact = i4, tc_fileName = f\<rparr>,
             \<lparr>tc_description = d3, tc_criticality = Medium, tc_impact = i3, tc_fileName = f\<rparr>,
             \<lparr>tc_description = d1, tc_criticality = Low, tc_impact = i1, tc_fileName = f\<rparr>]"
    by (simp add: extractCriticalTestCases_def taggedTestCases_def tagged_def noPayload_def
        array_sort_def byCriticality_def criticalityOrder_def)
  show ?thesis
    unfolding Let_def flat out using 1 2 3 4 by blast
qed

theorem extractCriticalTestCases_stable_witness:
  "filter (\<lambda>t. tc_criticality t = High) (extractCriticalTestCases sampleAnalyses)
     = [\<lparr>tc_description = ''a2'', tc_criticality = High, tc_impact = '''', tc_fileName = ''A.cs''\<rparr>,
        \<lparr>tc_description = ''c2'', tc_criticality = High, tc_impact = '''', tc_fileName = ''C.cs''\<rparr>]
   \<and> extractCriticalTestCases
           [\<lparr>success = True, fileName = ''A.cs'', skipped = False, reason = None, error = None,
             payload = noPayload\<lparr>missingNegativeTestCases :=
               Arr [\<lparr>description = ''1'', criticality = Low, impact = ''''\<rparr>,
                    \<lparr>description = ''2'', criticality = High, impact = ''''\<rparr>,
                    \<lparr>description = ''3'', criticality = Medium, impact = ''''\<rparr>,
                    \<lparr>description = ''4'', criticality = High, impact = ''''\<rparr>]\<rparr>\<rparr>]
          = [\<lparr>tc_description = ''2'', tc_criticality = High, tc_impact = '''', tc_fileName = ''A.cs''\<rparr>,
             \<lparr>tc_description = ''4'', tc_criticality = High, tc_impact = '''', tc_fileName = ''A.cs''\<rparr>,
             \<lparr>tc_description = ''3'', tc_criticality = Medium, tc_impact = '''', tc_fileName = ''A.cs''\<rparr>,
             \<lparr>tc_description = ''1'', tc_criticality = Low, tc_impact = '''', tc_fileName = ''A.cs''\<rparr>]"
  using extractCriticalTestCases_stable [of sampleAnalyses "''A.cs''" "''1''" "''''" "''2''" "''''" "''3''" "''''" "''4''" "''''"]
  unfolding Let_def
  by (simp add: sampleAnalyses_def noPayload_def tagged_def)

subsection \<open>Excluded files\<close>

text \<open>
  Claim C5. A file whose lower-cased name contains \<open>error\<close> or \<open>exception\<close> is marked
  skipped without a call to the model, whatever its content (even a missing one); so is a
  file whose lower-cased content contains \<open>error page\<close> or \<open>exception page\<close>. In
  particular \<open>ErrorPage.cs\<close> is skipped for every content.
\<close>

theorem excluded_file_skipped:
  "((\<exists>pre post. toLowerCase name = pre @ ''error'' @ post)
      \<or> (\<exists>pre post. toLowerCase name = pre @ ''exception'' @ post)
    \<longrightarrow> analyzeLogicFile ai fileContent name = (Inr (skippedResult name), []))
   \<and> ((\<exists>pre post. toLowerCase text = pre @ ''error page'' @ post)
        \<or> (\<exists>pre post. toLowerCase text = pre @ ''exception page'' @ post)
      \<longrightarrow> analyzeLogicFile ai (Some text) name = (Inr (skippedResult name), []))
   \<and> skipped (skippedResult name)
   \<and> analyzeLogicFile ai fileContent ''ErrorPage.cs'' = (Inr (skippedResult ''ErrorPage.cs''), [])"
proof -
  have "nameExcluded ''ErrorPage.cs''"
    by (simp add: nameExcluded_def toLowerCase_def toLowerCase_char_def)
  then show ?thesis
    by (auto simp: analyzeLogicFile_def nameExcluded_def contentExcluded_def str_includes_iff
        skippedResult_def)
qed

theorem excluded_file_skipped_witness:
  "analyzeLogicFile modelFailingOnB None ''GlobalExceptionFilter.cs''
     = (Inr (skippedResult ''GlobalExceptionFilter.cs''), [])
   \<and> analyzeLogicFile modelFailingOnB (Some ''<h1>Error Page</h1>'') ''Views.cs''
     = (Inr (skippedResult ''Views.cs''), [])
   \<and> analyzeLogicFile modelFailingOnB (Some ''class A { }'') ''ErrorPage.cs''
     = (Inr (skippedResult ''ErrorPage.cs''), [])"
proof -
  have n: "\<exists>pre post. toLowerCase ''GlobalExceptionFilter.cs'' = pre @ ''exception'' @ post"
    unfolding str_includes_iff [symmetric]
    by (simp add: toLowerCase_def toLowerCase_char_def)
  have c: "\<exists>pre post. toLowerCase ''<h1>Error Page</h1>'' = pre @ ''error page'' @ post"
    unfolding str_includes_iff [symmetric]
    by (simp add: toLowerCase_def toLowerCase_char_def)
  show ?thesis
    using n c
      excluded_file_skipped [of "''GlobalExceptionFilter.cs''" modelFailingOnB None "''<h1>Error Page</h1>''"]
      excluded_file_skipped [of "''Views.cs''" modelFailingOnB "Some ''class A { }''" "''<h1>Error Page</h1>''"]
    by blast
qed

section \<open>The clean-up of generated test code\<close>

lemma trim_cleanup: "trim (cleanup t) = cleanup t"
  by (simp add: cleanup_def Let_def trim_trim)

lemma cleanup_unmatched:
  assumes "\<not> anyMatch fence_match None y" and "\<not> anyMatch namespace_block_match None y"
    and "\<not> anyMatch using_match None y" and "\<not> anyMatch attribute_match None y"
  shows "cleanup y = trim y"
proof -
  have 1: "replaceAll fence_match None y = y"
    using assms(1) by (rule replaceAll_no_anyMatch)
  have 2: "replaceAll namespace_block_match None y = y"
    using assms(2) by (rule replaceAll_no_anyMatch)
  have 3: "replaceAll using_match None y = y"
    using assms(3) by (rule replaceAll_no_anyMatch)
  have 4: "replaceAll attribute_match None y = y"
    using assms(4) by (rule replaceAll_no_anyMatch)
  show ?thesis by (simp add: cleanup_def Let_def 1 2 3 4)
qed

lemmas cleanup_eval = cleanup_def fence_match_def namespace_block_match_def using_match_def
  attribute_match_def trim_def span_def isSpace_def isLineTerminator_def isWordChar_def
  isNameChar_def

lemma cleanup_sample:
  "cleanup ''```csharp\<newline>using System;\<newline>[Test]\<newline>int[] a = new int[3];\<newline>```''
     = ''int[] a = new int;''"
  by (simp add: cleanup_eval)

lemma cleanup_sample_unmatched:
  "\<not> anyMatch fence_match None ''int[] a = new int;''"
  "\<not> anyMatch namespace_block_match None ''int[] a = new int;''"
  "\<not> anyMatch using_match None ''int[] a = new int;''"
  "\<not> anyMatch attribute_match None ''int[] a = new int;''"
  by (simp_all add: cleanup_eval)

text \<open>
  A match of one of the four expressions is never empty, and deleting it shortens the text:
  a text in which one of them matches is changed by the clean-up.
\<close>

lemma length_replaceAll: "length (replaceAll m prev s) \<le> length s"
proof (induction m prev s rule: replaceAll.induct)
  case (1 m prev)
  then show ?case by simp
next
  case (2 m prev c cs)
  show ?case
  proof (cases "m prev (c # cs)")
    case None
    then show ?thesis using 2(1) by simp
  next
    case (Some n)
    show ?thesis
    proof (cases "n = 0")
      case True
      then show ?thesis using Some 2(2) by simp
    next
      case False
      have "length (replaceAll m (Some (last (take n (c # cs)))) (drop n (c # cs)))
              \<le> length (drop n (c # cs))"
        using 2(3) [OF Some False] .
      then show ?thesis using Some False by simp
    qed
  qed
qed

lemma replaceAll_shorter:
  assumes pos: "\<And>p s n. m p s = Some n \<Longrightarrow> 0 < n"
  shows "anyMatch m prev s \<Longrightarrow> length (replaceAll m prev s) < length s"
proof (induction s arbitrary: prev)
  case Nil
  then show ?case by simp
next
  case (Cons c cs)
  show ?case
  proof (cases "m prev (c # cs)")
    case None
    then have "anyMatch m (Some c) cs" using Cons.prems by simp
    then have "length (replaceAll m (Some c) cs) < length cs" by (rule Cons.IH)
    then show ?thesis using None by simp
  next
    case (Some n)
    then have n: "0 < n" by (rule pos)
    have "length (replaceAll m (Some (last (take n (c # cs)))) (drop n (c # cs)))
            \<le> length (drop n (c # cs))"
      by (rule length_replaceAll)
    then show ?thesis using Some n by simp
  qed
qed

lemma length_trim: "length (trim s) \<le> length s"
proof -
  have "length (dropWhile isSpace (rev (dropWhile isSpace s))) \<le> length (rev (dropWhile isSpace s))"
    by (rule length_dropWhile_le)
  also have "\<dots> \<le> length s" by (simp add: length_dropWhile_le)
  finally show ?thesis by (simp add: trim_def)
qed

lemma fence_match_pos: "fence_match p s = Some n \<Longrightarrow> 0 < n"
  by (auto simp: fence_match_def split: if_splits)

lemma namespace_block_match_pos: "namespace_block_match p s = Some n \<Longrightarrow> 0 < n"
  by (auto simp: namespace_block_match_def Let_def split: if_splits option.splits)

lemma using_match_pos: "using_match p s = Some n \<Longrightarrow> 0 < n"
  by (auto simp: using_match_def Let_def split: if_splits)

lemma attribute_match_pos: "attribute_match p s = Some n \<Longrightarrow> 0 < n"
  by (auto simp: attribute_match_def Let_def split: if_splits option.splits)

lemma cleanup_shortens:
  assumes "anyMatch fence_match None y \<or> anyMatch namespace_block_match None y
           \<or> anyMatch using_match None y \<or> anyMatch attribute_match None y"
  shows "length (cleanup y) < length y"
proof -
  define y1 where "y1 = replaceAll fence_match None y"
  define y2 where "y2 = replaceAll namespace_block_match None y1"
  define y3 where "y3 = replaceAll using_match None y2"
  define y4 where "y4 = replaceAll attribute_match None y3"
  have c: "cleanup y = trim y4"
    by (simp add: cleanup_def Let_def y1_def y2_def y3_def y4_def)
  have l1: "length y1 \<le> length y" and l2: "length y2 \<le> length y1"
    and l3: "length y3 \<le> length y2" and l4: "length y4 \<le> length y3"
    unfolding y1_def y2_def y3_def y4_def by (rule length_replaceAll)+
  have "length y4 < length y"
  proof (cases "anyMatch fence_match None y")
    case True
    then have "length y1 < length y"
      unfolding y1_def using fence_match_pos by (rule replaceAll_shorter [rotated])
    then show ?thesis using l2 l3 l4 by simp
  next
    case f: False
    then have e1: "y1 = y" unfolding y1_def by (rule replaceAll_no_anyMatch)
    show ?thesis
    proof (cases "anyMatch namespace_block_match None y")
      case True
      then have "length y2 < length y1"
        unfolding y2_def e1 using namespace_block_match_pos by (rule replaceAll_shorter [rotated])
      then show ?thesis using l1 l3 l4 by simp
    next
      case n: False
      then have e2: "y2 = y" unfolding y2_def e1 by (rule replaceAll_no_anyMatch)
      show ?thesis
      proof (cases "anyMatch using_match None y")
        case True
        then have "length y3 < length y2"
          unfolding y3_def e2 using using_match_pos by (rule replaceAll_shorter [rotated])
        then show ?thesis using l1 l2 l4 by simp
      next
        case u: False
        then have e3: "y3 = y" unfolding y3_def e2 by (rule replaceAll_no_anyMatch)
        from assms f n u have "anyMatch attribute_match None y" by blast
        then have "length y4 < length y3"
          unfolding y4_def e3 using attribute_match_pos by (rule replaceAll_shorter [rotated])
        then show ?thesis using l1 l2 l3 by simp
      qed
    qed
  qed
  moreover have "length (trim y4) \<le> length y4" by (rule length_trim)
  ultimately show ?thesis unfolding c by simp
qed

text \<open>
  Claim C6, amended. When none of the four expressions matches anywhere in the cleaned
  text, cleaning it again returns it unchanged. Each expression is applied in one pass,
  and deleting a match can put the parts of a new match next to each other; such outputs
  are not covered.
\<close>

theorem cleanup_idempotent_unless_matched:
  assumes "\<not> anyMatch fence_match None (cleanup t)"
    and "\<not> anyMatch namespace_block_match None (cleanup t)"
    and "\<not> anyMatch using_match None (cleanup t)"
    and "\<not> anyMatch attribute_match None (cleanup t)"
  shows "cleanup (cleanup t) = cleanup t"
  using cleanup_unmatched [OF assms] by (simp add: trim_cleanup)

theorem cleanup_idempotent_unless_matched_witness:
  "cleanup ''```csharp\<newline>using System;\<newline>[Test]\<newline>int[] a = new int[3];\<newline>```''
     = ''int[] a = new int;''
   \<and> str_includes ''int[] a = new int;'' ''[''
   \<and> cleanup (cleanup ''```csharp\<newline>using System;\<newline>[Test]\<newline>int[] a = new int[3];\<newline>```'')
       = cleanup ''```csharp\<newline>using System;\<newline>[Test]\<newline>int[] a = new int[3];\<newline>```''"
proof -
  have i: "str_includes ''int[] a = new int;'' ''[''"
    by simp
  show ?thesis
    using cleanup_idempotent_unless_matched
      [of "''```csharp\<newline>using System;\<newline>[Test]\<newline>int[] a = new int[3];\<newline>```''"]
    unfolding cleanup_sample using cleanup_sample_unmatched i by blast
qed

text \<open>
  Claim C6 as stated fails. In \<open>uusing X;sing Y;class T {}\<close> the one pass of the third
  expression deletes \<open>using X;\<close> and leaves \<open>using Y;class T {}\<close>, which the next run
  shortens to \<open>class T {}\<close>.
\<close>

theorem cleanup_not_idempotent_counterexample:
  "cleanup ''uusing X;sing Y;class T {}'' = ''using Y;class T {}''
   \<and> cleanup (cleanup ''uusing X;sing Y;class T {}'') = ''class T {}''
   \<and> cleanup (cleanup ''uusing X;sing Y;class T {}'') \<noteq> cleanup ''uusing X;sing Y;class T {}''"
  by (simp add: cleanup_eval)

section \<open>The test run\<close>

subsection \<open>The request sent to the Azure Function\<close>

lemma trim_simplifiedSource: "trim (simplifiedSource c) = simplifiedSource c"
  by (rule trim_id) (simp_all add: simplifiedSource_def isSpace_def)

lemma trim_simplifiedTest: "trim (simplifiedTest m c) = simplifiedTest m c"
  by (rule trim_id) (simp_all add: simplifiedTest_def isSpace_def)

lemma firstMatch_class_none:
  "\<not> str_includes s ''class'' \<Longrightarrow> firstMatch class_match prev s = None"
proof (induction s arbitrary: prev)
  case Nil
  then show ?case by (simp add: class_match_def)
next
  case (Cons c cs)
  then have s: "\<not> startsWith (c # cs) ''class''" and i: "\<not> str_includes cs ''class''"
    by simp_all
  have cm: "class_match prev (c # cs) = None"
    by (simp only: class_match_def s simp_thms if_False)
  have "firstMatch class_match (Some c) cs = None"
    using i by (rule Cons.IH)
  then show ?case by (simp only: firstMatch.simps cm option.case)
qed

lemma runTestOnAzure_requests:
  "snd (runTestOnAzure azure testCode filePath sourceCode) =
     [\<lparr>req_sourceCode =
         simplifiedSource (case firstMatch class_match None sourceCode of
                             Some c \<Rightarrow> c | None \<Rightarrow> ''TestClass''),
       req_testCode =
         simplifiedTest ''TestMethod'' (case firstMatch class_match None sourceCode of
                             Some c \<Rightarrow> c | None \<Rightarrow> ''TestClass'')\<rparr>]"
  by (simp add: runTestOnAzure_def Let_def trim_simplifiedSource trim_simplifiedTest
      split: sum.split option.split)

text \<open>
  Claim C9. The request sent to the Azure Function is the same for all test codes, file paths and
  Azure Functions once the source code is fixed: it is the fixed snippet with the class name
  captured by the first match of \<^verbatim>\<open>/\bclass\s+(\w+)\b/\<close> in the source, and with
  \<open>TestClass\<close> when there is no match, in particular when the source does not contain
  the word \<open>class\<close>.
\<close>

theorem azure_request_from_class_name:
  "snd (runTestOnAzure azure1 testCode1 filePath1 sourceCode)
     = snd (runTestOnAzure azure2 testCode2 filePath2 sourceCode)
   \<and> snd (runTestOnAzure azure1 testCode1 filePath1 sourceCode) =
       [\<lparr>req_sourceCode =
           simplifiedSource (case firstMatch class_match None sourceCode of
                               Some c \<Rightarrow> c | None \<Rightarrow> ''TestClass''),
         req_testCode =
           simplifiedTest ''TestMethod'' (case firstMatch class_match None sourceCode of
                               Some c \<Rightarrow> c | None \<Rightarrow> ''TestClass'')\<rparr>]
   \<and> (\<not> str_includes sourceCode ''class''
        \<longrightarrow> snd (runTestOnAzure azure1 testCode1 filePath1 sourceCode) =
             [\<lparr>req_sourceCode = simplifiedSource ''TestClass'',
               req_testCode = simplifiedTest ''TestMethod'' ''TestClass''\<rparr>])"
  by (simp add: runTestOnAzure_requests firstMatch_class_none)

theorem azure_request_from_class_name_witness:
  "snd (runTestOnAzure azureDown (Some ''public class T1 { }'') ''A.cs'' ''int x;'') =
     [\<lparr>req_sourceCode = simplifiedSource ''TestClass'',
       req_testCode = simplifiedTest ''TestMethod'' ''TestClass''\<rparr>]
   \<and> snd (runTestOnAzure azureDown (Some ''t1'') ''A.cs'' ''public class Calculator { }'')
       = snd (runTestOnAzure azureDown None ''B.cs'' ''public class Calculator { }'')
   \<and> snd (runTestOnAzure azureDown (Some ''t1'') ''A.cs'' ''public class Calculator { }'') =
     [\<lparr>req_sourceCode = simplifiedSource ''Calculator'',
       req_testCode = simplifiedTest ''TestMethod'' ''Calculator''\<rparr>]"
proof -
  have n: "\<not> str_includes ''int x;'' ''class''" by simp
  have m: "firstMatch class_match None ''public class Calculator { }'' = Some ''Calculator''"
    by (simp add: class_match_def span_def isWordChar_def isSpace_def)
  have 1: "snd (runTestOnAzure azureDown (Some ''public class T1 { }'') ''A.cs'' ''int x;'') =
     [\<lparr>req_sourceCode = simplifiedSource ''TestClass'',
       req_testCode = simplifiedTest ''TestMethod'' ''TestClass''\<rparr>]"
    using n azure_request_from_class_name
      [of azureDown "Some ''public class T1 { }''" "''A.cs''" "''int x;''"]
    by blast
  have 2: "snd (runTestOnAzure azureDown (Some ''t1'') ''A.cs'' ''public class Calculator { }'')
       = snd (runTestOnAzure azureDown None ''B.cs'' ''public class Calculator { }'')"
    using azure_request_from_class_name
      [of azureDown "Some ''t1''" "''A.cs''" "''public class Calculator { }''" azureDown None "''B.cs''"]
    by blast
  have 3: "snd (runTestOnAzure azureDown (Some ''t1'') ''A.cs'' ''public class Calculator { }'') =
     [\<lparr>req_sourceCode = simplifiedSource ''Calculator'',
       req_testCode = simplifiedTest ''TestMethod'' ''Calculator''\<rparr>]"
  proof -
    have "snd (runTestOnAzure azureDown (Some ''t1'') ''A.cs'' ''public class Calculator { }'') =
       [\<lparr>req_sourceCode =
           simplifiedSource (case firstMatch class_match None ''public class Calculator { }'' of
                               Some c \<Rightarrow> c | None \<Rightarrow> ''TestClass''),
         req_testCode =
           simplifiedTest ''TestMethod'' (case firstMatch class_match None ''public class Calculator { }'' of
                               Some c \<Rightarrow> c | None \<Rightarrow> ''TestClass'')\<rparr>]"
      using azure_request_from_class_name
        [of azureDown "Some ''t1''" "''A.cs''" "''public class Calculator { }''" azureDown None "''B.cs''"]
      by blast
    then show ?thesis by (simp only: m option.case)
  qed
  show ?thesis using 1 2 3 by blast
qed

subsection \<open>The local fall-back\<close>

lemma pendingDetails_eq:
  "pendingDetails c =
     [\<lparr>td_name = ''Test1_'' @ c, td_result = ''Pending'',
       td_duration = ''N/A (Local execution required)'', td_error = None\<rparr>,
      \<lparr>td_name = ''Test2_'' @ c, td_result = ''Pending'',
       td_duration = ''N/A (Local execution required)'', td_error = None\<rparr>,
      \<lparr>td_name = ''Test3_'' @ c, td_result = ''Pending'',
       td_duration = ''N/A (Local execution required)'', td_error = None\<rparr>]"
proof -
  have u: "[1 ..< 3 + 1] = [Suc 0, 2, 3 :: nat]" by (simp add: upt_rec)
  have d: "decimal (Suc 0) = ''1''" "decimal 2 = ''2''" "decimal 3 = ''3''"
    by (subst decimal.simps, simp)+
  show ?thesis
    unfolding pendingDetails_def generateDefaultTestDetails_def u
    by (simp add: d)
qed

lemma azureDown_fails:
  "\<not> azureSuccess (fst (runTestOnAzure azureDown testCode filePath sourceCode))"
  by (simp add: runTestOnAzure_def Let_def azureDown_def)

text \<open>
  Claim C8. For strings \<open>testCode\<close>, \<open>fileName\<close> and \<open>sourceCode\<close>, when the run on the Azure Function
  does not succeed (\<open>axios.post\<close> throws, the answer is empty, or it reports no success),
  \<open>runTestCode\<close> returns the object of the local fall-back: \<open>success\<close> is false, the four
  counts are 0, there are three details, each with the result \<open>Pending\<close> and the fields
  name, result, duration and error. Its \<open>error\<close> is the one of the failed run. Its
  instructions are the seven lines of \<open>generateLocalExecutionInstructions\<close>, naming the
  project after the file, and its project text is the console program of
  \<open>createTestProject\<close>: the three \<open>using\<close> lines, the source without its namespace lines, the
  test code without its \<open>using\<close> statements, and a \<open>Main\<close> that runs the test methods of the
  class named after the first class of the source.
\<close>

theorem runTestCode_fallback:
  assumes \<open>\<not> azureSuccess (fst (runTestOnAzure azure (Some testCode) fname sourceCode))\<close>
  shows \<open>\<exists>r. fst (runTestCode basename azure (Some testCode) (Some fname) (Some sourceCode))
              = Inr (Local r)
     \<and> \<not> lr_success r
     \<and> passed r = 0 \<and> failed r = 0 \<and> lr_skipped r = 0 \<and> lr_total r = 0
     \<and> length (details r) = 3
     \<and> (\<forall>d \<in> set (details r). td_result d = ''Pending'' \<and> td_error d = None
            \<and> td_duration d = ''N/A (Local execution required)'')
     \<and> map td_name (details r)
         = [''Test1_'' @ basename fname, ''Test2_'' @ basename fname, ''Test3_'' @ basename fname]
     \<and> localExecution r
     \<and> lr_testCode r = Some testCode
     \<and> generateLocalExecutionInstructions basename (Some testCode) (Some fname) sourceCode
         = Inr \<lparr>li_projectCode = projectCode r, li_instructions = instructions r\<rparr>
     \<and> createTestProject sourceCode (Some testCode) = Inr (projectCode r)
     \<and> instructions r \<noteq> []
     \<and> lr_error r
         = prop_or (azureError (fst (runTestOnAzure azure (Some testCode) fname sourceCode)))
             ''Azure Function execution failed''
     \<and> instructions r =
         join ''\<newline>''
            [''# How to Run These Tests Locally'',
            '''',
            ''1. Create a new C# project: dotnet new console -n '' @ basename fname @ ''Tests'',
            ''2. Change to the project directory: cd '' @ basename fname @ ''Tests'',
            ''3. Add NUnit packages: dotnet add package NUnit and dotnet add package NUnit3TestAdapter and dotnet add package Microsoft.NET.Test.Sdk and dotnet add package Moq'',
            ''4. Replace the content of Program.cs with the test code'',
            ''5. Run the tests: dotnet test'']
     \<and> projectCode r =
         join ''\<newline>''
            [''using System;'',
            ''using System.Collections.Generic;'',
            ''using System.Linq;'',
            '''',
            ''// Original source code'',
            trim (replaceAll closing_brace_match None (replaceAll namespace_open_match None sourceCode)),
            '''',
            ''// Test code'',
            trim (replaceAll using_match None testCode),
            '''',
            ''public class Program'',
            ''{'',
            ''    public static void Main(string[] args)'',
            ''    {'',
            ''        Console.WriteLine("Running tests...");'',
            ''        '',
            ''        // Find all test methods and run them'',
            ''        var testClass = new '' @ (case firstMatch class_match_i None sourceCode of Some c \<Rightarrow> c | None \<Rightarrow> ''DefaultClass'') @ ''Tests();'',
            ''        var testMethods = typeof('' @ (case firstMatch class_match_i None sourceCode of Some c \<Rightarrow> c | None \<Rightarrow> ''DefaultClass'') @ ''Tests).GetMethods()'',
            ''            .Where(m => m.Name.StartsWith("Test") && m.ReturnType == typeof(void));'',
            ''            '',
            ''        int passed = 0;'',
            ''        int failed = 0;'',
            ''        '',
            ''        foreach (var method in testMethods)'',
            ''        {'',
            ''            try'',
            ''            {'',
            ''                Console.WriteLine($"Running {method.Name}");'',
            ''                method.Invoke(testClass, null);'',
            ''                Console.WriteLine($"PASSED: {method.Name}");'',
            ''                passed++;'',
            ''            }'',
            ''            catch (Exception ex)'',
            ''            {'',
            ''                Console.WriteLine($"FAILED: {method.Name} - {ex.InnerException?.Message ?? ex.Message}");'',
            ''                failed++;'',
            ''            }'',
            ''        }'',
            ''        '',
            ''        Console.WriteLine($"Tests complete. Passed: {passed}, Failed: {failed}");'',
            ''    }'',
            ''}'',
            '''']\<close>
proof -
  obtain ar reqs where ar: "runTestOnAzure azure (Some testCode) fname sourceCode = (ar, reqs)"
    by (cases "runTestOnAzure azure (Some testCode) fname sourceCode")
  have na: "\<not> azureSuccess ar"
    using assms by (simp add: ar)
  have run: "fst (runTestCode basename azure (Some testCode) (Some fname) (Some sourceCode))
      = localFallback basename (basename fname) (prop_or (azureError ar) ''Azure Function execution failed'')
          (Some testCode) (Some fname) sourceCode"
    using na by (simp add: runTestCode_def Let_def ar)
  show ?thesis
    unfolding run ar fst_conv
    unfolding localFallback_def generateLocalExecutionInstructions_def createTestProject_def Let_def
    by (simp add: pendingDetails_eq)
qed

lemma fallback_sample:
  "dropCs ''Calc.cs'' = ''Calc''"
  "trim (replaceAll closing_brace_match None (replaceAll namespace_open_match None ''namespace Shop {\<newline>public class Calc { }\<newline>}'')) = ''public class Calc { }''"
  "trim (replaceAll using_match None ''using NUnit.Framework;\<newline>public class CalcTests { }'') = ''public class CalcTests { }''"
  "firstMatch class_match_i None ''namespace Shop {\<newline>public class Calc { }\<newline>}'' = Some ''Calc''"
  "prop_or (azureError (fst (runTestOnAzure azureDown (Some ''using NUnit.Framework;\<newline>public class CalcTests { }'') ''Calc.cs'' ''namespace Shop {\<newline>public class Calc { }\<newline>}''))) ''Azure Function execution failed''
     = ''connect ECONNREFUSED''"
  by (simp_all add: dropCs_def endsWith_def closing_brace_match_def namespace_open_match_def using_match_def
      class_match_i_def toLowerCase_def toLowerCase_char_def trim_def span_def isSpace_def
      isLineTerminator_def isWordChar_def isNameChar_def runTestOnAzure_def azureDown_def Let_def
      or_default_def)

theorem runTestCode_fallback_witness:
  \<open>\<exists>r. fst (runTestCode dropCs azureDown (Some ''using NUnit.Framework;\<newline>public class CalcTests { }'') (Some ''Calc.cs'') (Some ''namespace Shop {\<newline>public class Calc { }\<newline>}'')) = Inr (Local r)
     \<and> \<not> lr_success r
     \<and> passed r = 0 \<and> failed r = 0 \<and> lr_skipped r = 0 \<and> lr_total r = 0
     \<and> length (details r) = 3
     \<and> map td_name (details r) = [''Test1_Calc'', ''Test2_Calc'', ''Test3_Calc'']
     \<and> map td_result (details r) = [''Pending'', ''Pending'', ''Pending'']
     \<and> lr_testCode r = Some ''using NUnit.Framework;\<newline>public class CalcTests { }''
     \<and> lr_error r
         = ''connect ECONNREFUSED''
     \<and> instructions r =
         join ''\<newline>''
            [''# How to Run These Tests Locally'',
            '''',
            ''1. Create a new C# project: dotnet new console -n '' @ ''Calc'' @ ''Tests'',
            ''2. Change to the project directory: cd '' @ ''Calc'' @ ''Tests'',
            ''3. Add NUnit packages: dotnet add package NUnit and dotnet add package NUnit3TestAdapter and dotnet add package Microsoft.NET.Test.Sdk and dotnet add package Moq'',
            ''4. Replace the content of Program.cs with the test code'',
            ''5. Run the tests: dotnet test'']
     \<and> projectCode r =
         join ''\<newline>''
            [''using System;'',
            ''using System.Collections.Generic;'',
            ''using System.Linq;'',
            '''',
            ''// Original source code'',
            ''public class Calc { }'',
            '''',
            ''// Test code'',
            ''public class CalcTests { }'',
            '''',
            ''public class Program'',
            ''{'',
            ''    public static void Main(string[] args)'',
            ''    {'',
            ''        Console.WriteLine("Running tests...");'',
            ''        '',
            ''        // Find all test methods and run them'',
            ''        var testClass = new '' @ ''Calc'' @ ''Tests();'',
            ''        var testMethods = typeof('' @ ''Calc'' @ ''Tests).GetMethods()'',
            ''            .Where(m => m.Name.StartsWith("Test") && m.ReturnType == typeof(void));'',
            ''            '',
            ''        int passed = 0;'',
            ''        int failed = 0;'',
            ''        '',
            ''        foreach (var method in testMethods)'',
            ''        {'',
            ''            try'',
            ''            {'',
            ''                Console.WriteLine($"Running {method.Name}");'',
            ''                method.Invoke(testClass, null);'',
            ''                Console.WriteLine($"PASSED: {method.Name}");'',
            ''                passed++;'',
            ''            }'',
            ''            catch (Exception ex)'',
            ''            {'',
            ''                Console.WriteLine($"FAILED: {method.Name} - {ex.InnerException?.Message ?? ex.Message}");'',
            ''                failed++;'',
            ''            }'',
            ''        }'',
            ''        '',
            ''        Console.WriteLine($"Tests complete. Passed: {passed}, Failed: {failed}");'',
            ''    }'',
            ''}'',
            '''']\<close>
proof -
  from runTestCode_fallback [where azure = azureDown and basename = dropCs
      and testCode = "''using NUnit.Framework;\<newline>public class CalcTests { }''" and fname = "''Calc.cs''"
      and sourceCode = "''namespace Shop {\<newline>public class Calc { }\<newline>}''", OF azureDown_fails]
  show ?thesis unfolding fallback_sample by auto
qed

section \<open>The routes\<close>

text \<open>
  Claim C7. The claim asks for status 400 when the URL cannot be split into owner and name.
  The route has no such check: it never answers 400. A request without \<open>repoUrl\<close> ends in
  the \<open>catch\<close> block with status 500, and a URL of one segment is sent upstream with the
  owner \<open>undefined\<close>, which gives status 500 or 200 as the upstream decides.
\<close>

theorem repository_route_no_validation:
  "status (repository_route axios_get req) \<noteq> 400
   \<and> repository_route axios_get \<lparr>repoUrl = None, pat = Some ''ghp_token''\<rparr>
       = \<lparr>status = 500,
          body = ErrorBody ''Cannot read properties of undefined (reading 'split')''\<rparr>
   \<and> repository_route githubNotFound \<lparr>repoUrl = Some ''repo'', pat = Some ''ghp_token''\<rparr>
       = \<lparr>status = 500, body = ErrorBody ''Request failed with status code 404''\<rparr>
   \<and> repository_route githubAccepting \<lparr>repoUrl = Some ''repo'', pat = Some ''ghp_token''\<rparr>
       = \<lparr>status = 200,
          body = SuccessBody
            [\<lparr>treePath = ''src/File1.cs'', treeType = ''blob'', size = 10, sha = ''a1''\<rparr>]\<rparr>"
proof -
  have 1: "status (repository_route axios_get req) \<noteq> 400"
    by (simp add: repository_route_def Let_def split: option.split sum.split)
  have 2: "repository_route axios_get \<lparr>repoUrl = None, pat = Some ''ghp_token''\<rparr>
       = \<lparr>status = 500,
          body = ErrorBody ''Cannot read properties of undefined (reading 'split')''\<rparr>"
    by (simp add: repository_route_def)
  have 3: "repository_route githubNotFound \<lparr>repoUrl = Some ''repo'', pat = Some ''ghp_token''\<rparr>
       = \<lparr>status = 500, body = ErrorBody ''Request failed with status code 404''\<rparr>"
    by (simp add: repository_route_def Let_def githubNotFound_def)
  have 4: "repository_route githubAccepting \<lparr>repoUrl = Some ''repo'', pat = Some ''ghp_token''\<rparr>
       = \<lparr>status = 200,
          body = SuccessBody
            [\<lparr>treePath = ''src/File1.cs'', treeType = ''blob'', size = 10, sha = ''a1''\<rparr>]\<rparr>"
    by (simp add: repository_route_def Let_def githubAccepting_def endsWith_def)
  show ?thesis using 1 2 3 4 by blast
qed

text \<open>
  Claim C10. For a non-empty \<open>files\<close> array the route answers with status 200 and a body
  with \<open>success: true\<close> whose \<open>results\<close> is whatever \<open>analyzeLogicFiles\<close> returned, also
  when that is a failed aggregate (no logic files, all logic files excluded): the status
  and the top-level flag are the same for failed and successful aggregates.
\<close>

theorem analyze_logic_route_status:
  assumes "fs \<noteq> []"
  shows "status (fst (analyze_logic_route ai (Some fs))) = 200
     \<and> body (fst (analyze_logic_route ai (Some fs))) = SuccessBody (fst (analyzeLogicFiles ai fs))
     \<and> body_success (body (fst (analyze_logic_route ai (Some fs))))
     \<and> (filter isLogic fs = []
          \<longrightarrow> body (fst (analyze_logic_route ai (Some fs)))
                = SuccessBody (Failed ''No logic files found for analysis''))
     \<and> (filter isLogic fs \<noteq> [] \<and> (\<forall>f \<in> set fs. isLogic f \<longrightarrow> excluded f)
          \<longrightarrow> body (fst (analyze_logic_route ai (Some fs)))
                = SuccessBody (Failed ''All logic files were excluded as error handling files''))"
proof -
  have r: "fst (analyze_logic_route ai (Some fs))
             = \<lparr>status = 200, body = SuccessBody (fst (analyzeLogicFiles ai fs))\<rparr>"
    using assms by (simp add: analyze_logic_route_def split: prod.split)
  show ?thesis
    unfolding r using analyzeLogicFiles_no_logic [of fs ai] analyzeLogicFiles_all_excluded [of fs ai]
    by simp
qed

theorem analyze_logic_route_status_witness:
  "status (fst (analyze_logic_route modelFailingOnB (Some [fileD]))) = 200
   \<and> body (fst (analyze_logic_route modelFailingOnB (Some [fileD])))
       = SuccessBody (Failed ''No logic files found for analysis'')
   \<and> status (fst (analyze_logic_route modelFailingOnB (Some [fileD, fileE]))) = 200
   \<and> body (fst (analyze_logic_route modelFailingOnB (Some [fileD, fileE])))
       = SuccessBody (Failed ''All logic files were excluded as error handling files'')
   \<and> status (fst (analyze_logic_route modelFailingOnB (Some [fileA, fileB, fileC]))) = 200
   \<and> body_success (body (fst (analyze_logic_route modelFailingOnB (Some [fileA, fileB, fileC]))))"
proof -
  have d: "filter isLogic [fileD] = []"
    by (simp add: isLogic_def fileD_def)
  have e: "filter isLogic [fileD, fileE] \<noteq> []"
    "\<forall>f \<in> set [fileD, fileE]. isLogic f \<longrightarrow> excluded f"
    by (simp_all add: isLogic_def fileD_def fileE_def excluded_def nameExcluded_def
        toLowerCase_def toLowerCase_char_def)
  have n1: "[fileD] \<noteq> []" and n2: "[fileD, fileE] \<noteq> []" and n3: "[fileA, fileB, fileC] \<noteq> []"
    by simp_all
  have 1: "status (fst (analyze_logic_route modelFailingOnB (Some [fileD]))) = 200
     \<and> body (fst (analyze_logic_route modelFailingOnB (Some [fileD])))
         = SuccessBody (Failed ''No logic files found for analysis'')"
    using analyze_logic_route_status [OF n1, of modelFailingOnB] d by blast
  have 2: "status (fst (analyze_logic_route modelFailingOnB (Some [fileD, fileE]))) = 200
     \<and> body (fst (analyze_logic_route modelFailingOnB (Some [fileD, fileE])))
         = SuccessBody (Failed ''All logic files were excluded as error handling files'')"
    using analyze_logic_route_status [OF n2, of modelFailingOnB] e by blast
  have 3: "status (fst (analyze_logic_route modelFailingOnB (Some [fileA, fileB, fileC]))) = 200
     \<and> body_success (body (fst (analyze_logic_route modelFailingOnB (Some [fileA, fileB, fileC]))))"
    using analyze_logic_route_status [OF n3, of modelFailingOnB] by blast
  show ?thesis using 1 2 3 by blast
qed

end
